theory Spec2Isabelle
  imports Main "HOL-Library.Sublist"
begin

section \<open>The JavaScript string operations the node calls\<close>

text \<open>
  The node \<^verbatim>\<open>OracleDatabase.execute\<close> (src/nodes/Oracle/OracleDatabase.node.ts) builds its
  SQL text with three operations of \<^verbatim>\<open>String.prototype\<close>: \<^verbatim>\<open>replaceAll\<close>, \<^verbatim>\<open>split\<close>
  and \<^verbatim>\<open>slice(0, -1)\<close>. A JavaScript string is modelled as a \<^typ>\<open>string\<close>, one
  \<^typ>\<open>char\<close> per code unit (code units below 256). The runtime is one that has
  \<^verbatim>\<open>String.prototype.replaceAll\<close> and \<^verbatim>\<open>crypto.randomUUID\<close> built in, so the regular
  expression polyfill of lines 143-150 and 293-300 is never installed.
\<close>

text \<open>
  \<^verbatim>\<open>GetSubstitution\<close> of ECMA-262 for a string pattern (no captures, no named groups):
  in the replacement text \<^verbatim>\<open>$$\<close> stands for a dollar sign, \<^verbatim>\<open>$&\<close> for the matched
  text, \<^verbatim>\<open>$`\<close> for the part of the subject before the match and \<^verbatim>\<open>$'\<close> for the part
  after it; every other character, also a dollar sign before a digit or
  before \<^verbatim>\<open><\<close>, stands for itself.
\<close>

fun GetSubstitution :: "string \<Rightarrow> string \<Rightarrow> string \<Rightarrow> string \<Rightarrow> string" where
  "GetSubstitution matched preceding following [] = []"
| "GetSubstitution matched preceding following [c] = [c]"
| "GetSubstitution matched preceding following (c # d # t) =
     (if c = CHR ''$'' \<and> d = CHR ''$'' then CHR ''$'' # GetSubstitution matched preceding following t
      else if c = CHR ''$'' \<and> d = CHR ''&'' then matched @ GetSubstitution matched preceding following t
      else if c = CHR ''$'' \<and> d = CHR 0x60 then preceding @ GetSubstitution matched preceding following t
      else if c = CHR ''$'' \<and> d = CHR 0x27 then following @ GetSubstitution matched preceding following t
      else c # GetSubstitution matched preceding following (d # t))"

text \<open>
  \<^verbatim>\<open>subject.replaceAll(searchValue, replaceValue)\<close> with two strings: the matches are
  found from left to right, each search starting where the previous match ended (one
  code unit further when the search string is empty), and every match is replaced by
  the substitution of the replacement text. \<open>seen\<close> is the part of the subject to the
  left of the current position.
\<close>

function replaceAll_from :: "string \<Rightarrow> string \<Rightarrow> string \<Rightarrow> string \<Rightarrow> string" where
  "replaceAll_from searchValue replaceValue seen rest =
     (if prefix searchValue rest then
        GetSubstitution searchValue seen (drop (length searchValue) rest) replaceValue @
        (if searchValue = [] then
           (case rest of
              [] \<Rightarrow> []
            | c # cs \<Rightarrow> c # replaceAll_from searchValue replaceValue (seen @ [c]) cs)
         else replaceAll_from searchValue replaceValue (seen @ searchValue)
                (drop (length searchValue) rest))
      else
        (case rest of
           [] \<Rightarrow> []
         | c # cs \<Rightarrow> c # replaceAll_from searchValue replaceValue (seen @ [c]) cs))"
  by pat_completeness auto
termination
  by (relation "measure (\<lambda>(p, r, seen, rest). length rest)") (auto simp: prefix_def)

declare replaceAll_from.simps [simp del]

definition replaceAll :: "string \<Rightarrow> string \<Rightarrow> string \<Rightarrow> string" where
  "replaceAll subject searchValue replaceValue = replaceAll_from searchValue replaceValue [] subject"

text \<open>
  \<^verbatim>\<open>subject.split(",")\<close>: the pieces between the separators, in order; a subject with no
  separator is its own single piece, so the empty string splits into one empty piece.
\<close>

fun split :: "char \<Rightarrow> string \<Rightarrow> string list" where
  "split sep [] = [[]]"
| "split sep (c # cs) =
     (if c = sep then [] # split sep cs
      else (case split sep cs of [] \<Rightarrow> [[c]] | s # ss \<Rightarrow> (c # s) # ss))"

text \<open>\<^verbatim>\<open>pieces.join(sep)\<close>, used to describe the texts the node builds.\<close>

fun join :: "string \<Rightarrow> string list \<Rightarrow> string" where
  "join sep [] = []"
| "join sep [s] = s"
| "join sep (s # t # ss) = s @ sep @ join sep (t # ss)"

section \<open>JavaScript numbers\<close>

text \<open>
  A JavaScript number is \<^verbatim>\<open>NaN\<close>, an infinity, or a finite IEEE-754 double; both zeros
  exist. A finite number is held as the decimal that \<^verbatim>\<open>Number::toString\<close> prints for it:
  \<open>Fin neg m e\<close> is the double of sign \<open>neg\<close> that is nearest to \<open>m * 10 ^ e\<close>, where
  \<open>m * 10 ^ e\<close> is the decimal of fewest digits that has this double as its nearest one
  (\<open>m = 0\<close> for the zeros).
\<close>

datatype jsnumber = NaN | Infinity bool | Fin bool nat int

text \<open>The magnitude in the form with the fewest digits: no trailing zero in \<open>m\<close>.\<close>

function strip_zeros :: "nat \<Rightarrow> int \<Rightarrow> nat \<times> int" where
  "strip_zeros m e =
     (if m = 0 then (0, 0)
      else if m mod 10 = 0 then strip_zeros (m div 10) (e + 1)
      else (m, e))"
  by pat_completeness auto
termination
  by (relation "measure (\<lambda>(m, e). m)") auto

declare strip_zeros.simps [simp del]

definition finite_number :: "bool \<Rightarrow> nat \<Rightarrow> int \<Rightarrow> jsnumber" where
  "finite_number neg m e = (case strip_zeros m e of (m', e') \<Rightarrow> Fin neg m' e')"


text \<open>The decimal digits of a natural number.\<close>

function decimal_digits :: "nat \<Rightarrow> string" where
  "decimal_digits n =
     (if n < 10 then [char_of (48 + n)]
      else decimal_digits (n div 10) @ [char_of (48 + n mod 10)])"
  by pat_completeness auto
termination
  by (relation "measure id") auto

declare decimal_digits.simps [simp del]

subsection \<open>The double nearest to a decimal\<close>

text \<open>
  \<^verbatim>\<open>Number(text)\<close> gives the Number value of the mathematical value of the literal: the
  double nearest to it, the one with the even significand when two are equally near,
  an infinity from \<open>2 ^ 1024\<close> on and a zero below half the smallest double. The value is
  rounded as it stands, with all its digits (ECMA-262 lets an implementation cut a
  literal after its 20th significant digit; V8, the engine of Node, does not). The
  functions below work on a positive rational \<open>a / b\<close> and give a double as the pair
  \<open>(s, q)\<close> of the value \<open>s * 2 ^ q\<close>, with \<open>s < 2 ^ 53\<close> and \<open>- 1074 \<le> q\<close>.
\<close>

function bit_length :: "nat \<Rightarrow> nat" where
  "bit_length n = (if n = 0 then 0 else Suc (bit_length (n div 2)))"
  by pat_completeness auto
termination
  by (relation "measure id") auto

declare bit_length.simps [simp del]

text \<open>The quotient \<open>a / b\<close> rounded to the nearest natural number, to the even one on a tie.\<close>

definition round_half_even :: "nat \<Rightarrow> nat \<Rightarrow> nat" where
  "round_half_even a b =
     (let f = a div b; r = a mod b
      in if 2 * r < b then f else if b < 2 * r then Suc f else if even f then f else Suc f)"

text \<open>The integer \<open>k\<close> with \<open>2 ^ k \<le> a / b < 2 ^ (k + 1)\<close>, for positive \<open>a\<close> and \<open>b\<close>.\<close>

definition binary_exponent :: "nat \<Rightarrow> nat \<Rightarrow> int" where
  "binary_exponent a b =
     (let k = int (bit_length a) - int (bit_length b)
      in if (if 0 \<le> k then b * 2 ^ nat k \<le> a else b \<le> a * 2 ^ nat (- k)) then k else k - 1)"

text \<open>
  The double nearest to \<open>a / b\<close>: 53 significant bits, or fewer at the exponent \<open>- 1074\<close>
  of the subnormal doubles. \<open>None\<close> is a value that rounds to \<open>2 ^ 1024\<close> or more.
\<close>

definition nearest_double :: "nat \<Rightarrow> nat \<Rightarrow> (nat \<times> int) option" where
  "nearest_double a b =
     (if a = 0 then Some (0, 0)
      else
        (let q = max (binary_exponent a b - 52) (- 1074);
             s = (if 0 \<le> q then round_half_even a (b * 2 ^ nat q)
                  else round_half_even (a * 2 ^ nat (- q)) b)
         in if 971 \<le> q \<and> 2 ^ 53 \<le> s * 2 ^ nat (q - 971) then None else Some (s, q)))"

definition double_of_decimal :: "nat \<Rightarrow> int \<Rightarrow> (nat \<times> int) option" where
  "double_of_decimal m e =
     (if 0 \<le> e then nearest_double (m * 10 ^ nat e) 1 else nearest_double m (10 ^ nat (- e)))"

definition same_double :: "nat \<times> int \<Rightarrow> nat \<times> int \<Rightarrow> bool" where
  "same_double x y =
     (case (x, y) of
        ((s, q), (s', q')) \<Rightarrow>
          if q \<le> q' then s = s' * 2 ^ nat (q' - q) else s * 2 ^ nat (q - q') = s')"

text \<open>
  The decimal \<open>(m, e)\<close> that \<^verbatim>\<open>Number::toString\<close> prints for the positive double \<open>s * 2 ^ q\<close>:
  with \<open>n\<close> the decimal exponent of the double (\<open>10 ^ (n - 1) \<le> s * 2 ^ q < 10 ^ n\<close>), the
  first number of digits \<open>k\<close> for which one of the two \<open>k\<close>-digit decimals around the
  double has it as its nearest double, and of the two the nearer one (the even one on
  a tie). 17 digits are always enough; the last line is the double written out in full.
\<close>

definition shortest_decimal :: "nat \<times> int \<Rightarrow> nat \<times> int" where
  "shortest_decimal x =
     (case x of
        (s, q) \<Rightarrow>
          (let a = (if 0 \<le> q then s * 2 ^ nat q else s);
               b = (if 0 \<le> q then 1 else 2 ^ nat (- q));
               n = (if b \<le> a then int (length (decimal_digits (a div b)))
                    else (case find (\<lambda>j. b \<le> a * 10 ^ Suc j) [0..<400] of
                            Some j \<Rightarrow> - int j
                          | None \<Rightarrow> 0));
               candidates =
                 (\<lambda>k. let t = n - int k;
                          a' = (if 0 \<le> t then a else a * 10 ^ nat (- t));
                          b' = (if 0 \<le> t then b * 10 ^ nat t else b);
                          lo = a' div b';
                          r = a' mod b'
                      in if 2 * r < b' \<or> (2 * r = b' \<and> even lo) then [(lo, t), (Suc lo, t)]
                         else [(Suc lo, t), (lo, t)])
           in (case find (\<lambda>(c, t). case double_of_decimal c t of
                                      None \<Rightarrow> False
                                    | Some y \<Rightarrow> same_double y (s, q))
                         (concat (map candidates [1..<18])) of
                 Some d \<Rightarrow> d
               | None \<Rightarrow> (if 0 \<le> q then (s * 2 ^ nat q, 0) else (s * 5 ^ nat (- q), q)))))"

text \<open>The Number value of the decimal \<open>m * 10 ^ e\<close> with the sign \<open>neg\<close>.\<close>

definition number_value :: "bool \<Rightarrow> nat \<Rightarrow> int \<Rightarrow> jsnumber" where
  "number_value neg m e =
     (case double_of_decimal m e of
        None \<Rightarrow> Infinity neg
      | Some (s, q) \<Rightarrow>
          if s = 0 then Fin neg 0 0
          else (case shortest_decimal (s, q) of (m', e') \<Rightarrow> finite_number neg m' e'))"

subsection \<open>\<^verbatim>\<open>Number(text)\<close>: the abstract operation StringToNumber\<close>

definition StrWhiteSpaceChar :: "char \<Rightarrow> bool" where
  "StrWhiteSpaceChar c \<longleftrightarrow>
     c \<in> set [CHR 0x09, CHR 0x0A, CHR 0x0B, CHR 0x0C, CHR 0x0D, CHR 0x20, CHR 0xA0]"

definition trim :: "string \<Rightarrow> string" where
  "trim s = rev (dropWhile StrWhiteSpaceChar (rev (dropWhile StrWhiteSpaceChar s)))"

definition DecimalDigit :: "char \<Rightarrow> bool" where
  "DecimalDigit c \<longleftrightarrow> c \<in> set ''0123456789''"

definition digit_value :: "char \<Rightarrow> nat" where
  "digit_value c =
     (if c \<in> set ''0123456789'' then of_char c - 48
      else if c \<in> set ''abcdef'' then of_char c - 87
      else of_char c - 55)"

definition radix_value :: "nat \<Rightarrow> string \<Rightarrow> nat" where
  "radix_value b ds = foldl (\<lambda>a c. b * a + digit_value c) 0 ds"

definition DecimalDigits :: "string \<Rightarrow> nat option" where
  "DecimalDigits s =
     (if s \<noteq> [] \<and> list_all DecimalDigit s then Some (radix_value 10 s) else None)"

definition SignedInteger :: "string \<Rightarrow> int option" where
  "SignedInteger s =
     (case s of
        [] \<Rightarrow> None
      | c # t \<Rightarrow>
          if c = CHR ''+'' then map_option int (DecimalDigits t)
          else if c = CHR ''-'' then map_option (\<lambda>n. - int n) (DecimalDigits t)
          else map_option int (DecimalDigits s))"

text \<open>What follows the mantissa: nothing, or an exponent part.\<close>

definition ExponentPart_opt :: "string \<Rightarrow> int option" where
  "ExponentPart_opt s =
     (case s of
        [] \<Rightarrow> Some 0
      | c # t \<Rightarrow> if c = CHR ''e'' \<or> c = CHR ''E'' then SignedInteger t else None)"

text \<open>
  \<^verbatim>\<open>StrUnsignedDecimalLiteral\<close> other than \<^verbatim>\<open>Infinity\<close>: digits, an optional point and
  fraction digits (at least one digit in all), an optional exponent. The result is the
  pair \<open>(m, e)\<close> of the value \<open>m * 10 ^ e\<close>.
\<close>

definition StrUnsignedDecimalLiteral :: "string \<Rightarrow> (nat \<times> int) option" where
  "StrUnsignedDecimalLiteral s =
     (let ip = takeWhile DecimalDigit s;
          r = dropWhile DecimalDigit s;
          point = (r \<noteq> [] \<and> hd r = CHR ''.'');
          fp = (if point then takeWhile DecimalDigit (tl r) else []);
          r' = (if point then dropWhile DecimalDigit (tl r) else r)
      in if ip = [] \<and> fp = [] then None
         else (case ExponentPart_opt r' of
                 None \<Rightarrow> None
               | Some x \<Rightarrow> Some (radix_value 10 (ip @ fp), x - int (length fp))))"

definition StrDecimalLiteral :: "string \<Rightarrow> jsnumber option" where
  "StrDecimalLiteral s =
     (let neg = (s \<noteq> [] \<and> hd s = CHR ''-'');
          u = (if s \<noteq> [] \<and> (hd s = CHR ''+'' \<or> hd s = CHR ''-'') then tl s else s)
      in if u = ''Infinity'' then Some (Infinity neg)
         else map_option (\<lambda>(m, e). number_value neg m e) (StrUnsignedDecimalLiteral u))"

text \<open>\<^verbatim>\<open>NonDecimalIntegerLiteral\<close>: \<^verbatim>\<open>0x\<close>, \<^verbatim>\<open>0o\<close> or \<^verbatim>\<open>0b\<close> and digits of that radix, no sign.\<close>

definition NonDecimalIntegerLiteral :: "string \<Rightarrow> jsnumber option" where
  "NonDecimalIntegerLiteral s =
     (case s of
        z # x # ds \<Rightarrow>
          if z = CHR ''0'' \<and> ds \<noteq> [] then
            if x \<in> set ''xX'' \<and> list_all (\<lambda>c. c \<in> set ''0123456789abcdefABCDEF'') ds
              then Some (number_value False (radix_value 16 ds) 0)
            else if x \<in> set ''oO'' \<and> list_all (\<lambda>c. c \<in> set ''01234567'') ds
              then Some (number_value False (radix_value 8 ds) 0)
            else if x \<in> set ''bB'' \<and> list_all (\<lambda>c. c \<in> set ''01'') ds
              then Some (number_value False (radix_value 2 ds) 0)
            else None
          else None
      | _ \<Rightarrow> None)"

text \<open>
  \<^verbatim>\<open>StringNumericLiteral\<close>: white space around nothing, or around one numeric literal.
  \<open>None\<close> is a text that is no numeric literal.
\<close>

definition StringNumericLiteral :: "string \<Rightarrow> jsnumber option" where
  "StringNumericLiteral s =
     (let t = trim s
      in if t = [] then Some (Fin False 0 0)
         else (case NonDecimalIntegerLiteral t of
                 Some n \<Rightarrow> Some n
               | None \<Rightarrow> StrDecimalLiteral t))"

definition StringToNumber :: "string \<Rightarrow> jsnumber" where
  "StringToNumber s = (case StringNumericLiteral s of None \<Rightarrow> NaN | Some n \<Rightarrow> n)"

subsection \<open>\<^verbatim>\<open>String(number)\<close>: \<^verbatim>\<open>Number::toString\<close> in radix 10\<close>

definition NumberToString :: "jsnumber \<Rightarrow> string" where
  "NumberToString x =
     (case x of
        NaN \<Rightarrow> ''NaN''
      | Infinity neg \<Rightarrow> (if neg then ''-Infinity'' else ''Infinity'')
      | Fin neg m0 e0 \<Rightarrow>
          (case strip_zeros m0 e0 of (m, e) \<Rightarrow>
             if m = 0 then ''0''
             else
               (let s = decimal_digits m; k = int (length s); n = e + k;
                    x = n - 1;
                    ex = (if x < 0 then ''-'' else ''+'') @ decimal_digits (nat \<bar>x\<bar>)
                in (if neg then ''-'' else []) @
                   (if - 5 \<le> n \<and> n \<le> 21 then
                      (if k \<le> n then s @ replicate (nat (n - k)) (CHR ''0'')
                       else if 0 < n then take (nat n) s @ ''.'' @ drop (nat n) s
                       else ''0.'' @ replicate (nat (- n)) (CHR ''0'') @ s)
                    else if k = 1 then s @ ''e'' @ ex
                    else take 1 s @ ''.'' @ drop 1 s @ ''e'' @ ex))))"

text \<open>The comparison \<^verbatim>\<open>x > 0\<close> of line 241.\<close>

definition greater_than_zero :: "jsnumber \<Rightarrow> bool" where
  "greater_than_zero x =
     (case x of NaN \<Rightarrow> False | Infinity neg \<Rightarrow> \<not> neg | Fin neg m e \<Rightarrow> \<not> neg \<and> 0 < m)"

subsection \<open>Values that are a string or a number\<close>

text \<open>
  \<^verbatim>\<open>param.value\<close> has the type \<^verbatim>\<open>string | number\<close> (line 178), and so has the \<^verbatim>\<open>val\<close> of a
  bind. \<^verbatim>\<open>Number(v)\<close> parses a string and leaves a number as it is; \<^verbatim>\<open>String(v)\<close> and
  \<^verbatim>\<open>v.toString()\<close> leave a string as it is and print a number.
\<close>

datatype jsvalue = Str string | Num jsnumber

fun Number :: "jsvalue \<Rightarrow> jsnumber" where
  "Number (Str s) = StringToNumber s"
| "Number (Num n) = n"

fun String :: "jsvalue \<Rightarrow> string" where
  "String (Str s) = s"
| "String (Num n) = NumberToString n"

section \<open>The parameter list and the bind parameters\<close>

text \<open>
  One entry of the parameter list (lines 175-181), and one bind parameter of the driver
  (\<^verbatim>\<open>oracledb.BindParameter\<close>: a type tag and a value). The bind parameters object
  (\<^verbatim>\<open>Record<string, oracledb.BindParameter>\<close>) starts as the object literal \<^verbatim>\<open>{}\<close> of
  line 238; it is held as the map of its own properties.
\<close>

record param =
  name :: string
  "value" :: jsvalue
  "datatype" :: string
  parseInStatement :: bool

datatype oracledb_type = NUMBER | STRING

record BindParameter =
  type :: oracledb_type
  val :: jsvalue

type_synonym bindParameters = "string \<rightharpoonup> BindParameter"

text \<open>
  \<^verbatim>\<open>crypto.randomUUID()\<close> is an input of the model: \<open>randomUUID i\<close> is what the call
  number \<open>i\<close> of an invocation returns (counted from 0).
\<close>

type_synonym randomUUID = "nat \<Rightarrow> string"

text \<open>
  The assignment \<^verbatim>\<open>acc[key] = bind\<close> (lines 201 and 220) creates the own property \<open>key\<close> or
  overwrites it. The one exception is the key \<^verbatim>\<open>__proto__\<close>: on an object literal that
  assignment goes to the setter inherited from \<^verbatim>\<open>Object.prototype\<close>, which makes the bind
  the prototype of the object and creates no property.
\<close>

definition assign :: "bindParameters \<Rightarrow> string \<Rightarrow> BindParameter \<Rightarrow> bindParameters" where
  "assign acc key bind = (if key = ''__proto__'' then acc else acc(key \<mapsto> bind))"

text \<open>Lines 196-197, and the value of lines 203-206 and 222-225.\<close>

definition dataType :: "param \<Rightarrow> oracledb_type" where
  "dataType p = (if datatype p = ''number'' then NUMBER else STRING)"

definition bind_val :: "param \<Rightarrow> jsvalue \<Rightarrow> jsvalue" where
  "bind_val p v = (if datatype p = ''number'' then Num (Number v) else Str (String v))"

text \<open>
  The loop of lines 216-229 over \<open>valuesArray\<close>: one call of \<^verbatim>\<open>randomUUID\<close>, one new bind
  and one more placeholder in \<open>inClause\<close> for each value. The state is the bind
  parameters, \<open>inClause\<close> and the number of UUIDs drawn so far.
\<close>

fun for_loop ::
  "randomUUID \<Rightarrow> param \<Rightarrow> string list \<Rightarrow> bindParameters \<times> string \<times> nat
     \<Rightarrow> bindParameters \<times> string \<times> nat" where
  "for_loop randomUUID p [] (acc, inClause, calls) = (acc, inClause, calls)"
| "for_loop randomUUID p (v # valuesArray) (acc, inClause, calls) =
     (let uniqueSuffix = replaceAll (randomUUID calls) ''-'' ''_'';
          newParamName = name p @ uniqueSuffix
      in for_loop randomUUID p valuesArray
           (assign acc newParamName \<lparr>type = dataType p, val = bind_val p (Str v)\<rparr>,
            inClause @ '':'' @ newParamName @ '','',
            Suc calls))"

text \<open>
  The callback of \<^verbatim>\<open>parameterList.reduce\<close> (lines 194-238). Besides the accumulator it
  updates the variable \<open>query\<close> (line 235), so the state is the bind parameters, the
  query and the number of UUIDs drawn so far.
\<close>

definition reducer ::
  "randomUUID \<Rightarrow> bindParameters \<times> string \<times> nat \<Rightarrow> param \<Rightarrow> bindParameters \<times> string \<times> nat" where
  "reducer randomUUID st p =
     (case st of (acc, query, calls) \<Rightarrow>
        if \<not> parseInStatement p then
          (assign acc (name p) \<lparr>type = dataType p, val = bind_val p (value p)\<rparr>, query, calls)
        else
          (let valuesArray = split (CHR '','') (String (value p))
           in (case for_loop randomUUID p valuesArray (acc, ''('', calls) of
                 (acc', inClause, calls') \<Rightarrow>
                   (acc', replaceAll query ('':'' @ name p) (butlast inClause @ '')''), calls'))))"

definition reduce ::
  "randomUUID \<Rightarrow> string \<Rightarrow> param list \<Rightarrow> bindParameters \<times> string \<times> nat" where
  "reduce randomUUID query parameterList = foldl (reducer randomUUID) (Map.empty, query, 0) parameterList"

text \<open>
  The names of the binds that the loop creates for \<open>k\<close> values when \<open>calls\<close> UUIDs have
  been drawn before: the parameter's name followed by the UUID with its hyphens turned
  into underscores (lines 217-218).
\<close>

definition synthetic_names :: "randomUUID \<Rightarrow> param \<Rightarrow> nat \<Rightarrow> nat \<Rightarrow> string list" where
  "synthetic_names randomUUID p calls k =
     map (\<lambda>i. name p @ replaceAll (randomUUID (calls + i)) ''-'' ''_'') [0..<k]"

text \<open>
  The shape of what \<^verbatim>\<open>crypto.randomUUID()\<close> returns: 36 characters, hyphens at the
  positions 8, 13, 18 and 23 and lower-case hexadecimal digits elsewhere.
\<close>

definition is_uuid :: "string \<Rightarrow> bool" where
  "is_uuid s \<longleftrightarrow>
     list_all (\<lambda>c. c \<in> set ''0123456789abcdef-'') s \<and>
     map (\<lambda>c. c = CHR ''-'') s =
       replicate 8 False @ [True] @ replicate 4 False @ [True] @ replicate 4 False @ [True] @
       replicate 4 False @ [True] @ replicate 12 False"

text \<open>Three UUIDs, for running the node on examples.\<close>

definition example_uuids :: randomUUID where
  "example_uuids i =
     (if i = 0 then ''1b4e28ba-2fa1-41d2-883f-0016d3cca427''
      else if i = 1 then ''6fa459ea-ee8a-4ca4-894e-db77e160355e''
      else ''9a7b330a-a736-41e1-b1d7-4f2c8b1a0c55'')"

text \<open>Three other UUIDs, for a second invocation.\<close>

definition other_uuids :: randomUUID where
  "other_uuids i =
     (if i = 0 then ''c73bcdcc-2669-4bf6-81d3-e4ae73fb11fd''
      else if i = 1 then ''0e37df36-f698-41c1-b29b-6e1a1d1e2a44''
      else ''5b0a8b3e-7c2f-4d4a-9f0b-3f9c1d2e6a77'')"

text \<open>Lines 241-245: the row limit clause.\<close>

definition row_limit :: "string \<Rightarrow> jsnumber \<Rightarrow> string" where
  "row_limit query rowLimit =
     (if greater_than_zero rowLimit
      then query @ '' FETCH FIRST '' @ NumberToString rowLimit @ '' ROWS ONLY''
      else query)"

section \<open>The connection, the result and the output items\<close>

datatype out_format = OUT_FORMAT_ARRAY | OUT_FORMAT_OBJECT

record execute_options =
  outFormat :: out_format
  autoCommit :: bool
  extendedMetaData :: bool

text \<open>
  The driver's result: the rows, absent for a statement that returns none, and the rest
  of the envelope. Rows and the rest are opaque.
\<close>

record ('row, 'meta) result =
  rows :: "'row list option"
  metaData :: 'meta

datatype ('row, 'meta) IDataObject = Envelope "('row, 'meta) result" | Row 'row

record ('row, 'meta) INodeExecutionData =
  json :: "('row, 'meta) IDataObject"

text \<open>Lines 256-267: the output items of a result.\<close>

definition returnItems ::
  "bool \<Rightarrow> ('row, 'meta) result \<Rightarrow> ('row, 'meta) INodeExecutionData list" where
  "returnItems includeMetadata result =
     (if includeMetadata then [\<lparr>json = Envelope result\<rparr>]
      else map (\<lambda>row. \<lparr>json = Row row\<rparr>) (case rows result of None \<Rightarrow> [] | Some rs \<Rightarrow> rs))"

text \<open>
  What is thrown: an error of the driver or of the host (opaque), the \<^verbatim>\<open>TypeError\<close> of a
  call on a missing connection, or the \<^verbatim>\<open>NodeOperationError\<close> that wraps one of them.
\<close>

datatype 'e error = Error 'e | TypeError | NodeOperationError "'e error"

text \<open>
  The two methods of a connection the node calls. \<open>execute\<close> answers a statement with an
  error or a result; \<open>close\<close> is \<open>Some e\<close> when closing throws \<open>e\<close>.
\<close>

record ('e, 'row, 'meta) connection =
  execute :: "string \<Rightarrow> bindParameters \<Rightarrow> execute_options \<Rightarrow> 'e + ('row, 'meta) result"
  close :: "'e option"

text \<open>The four node parameters read at the start of the \<^verbatim>\<open>try\<close> block (lines 172-190).\<close>

record node_parameters =
  query :: string
  params :: "param list"
  includeMetadata :: bool
  rowLimit :: jsnumber

text \<open>What the invocation does to the outside, in order.\<close>

datatype 'e event =
    Execute string bindParameters execute_options
  | Close
  | ConsoleError 'e

datatype ('e, 'a) completion = Normal 'a | Throw 'e

text \<open>
  The \<^verbatim>\<open>try\<close> block (lines 171-267). Reading a node parameter may throw (\<open>Inl\<close>); a
  missing connection makes \<^verbatim>\<open>connection.execute\<close> a \<^verbatim>\<open>TypeError\<close>.
\<close>

definition try_block ::
  "randomUUID \<Rightarrow> ('e, 'row, 'meta) connection option \<Rightarrow> 'e + node_parameters \<Rightarrow> 'e event list
     \<Rightarrow> ('e error, ('row, 'meta) INodeExecutionData list) completion \<times> 'e event list" where
  "try_block randomUUID conn getNodeParameter trace =
     (case getNodeParameter of
        Inl e \<Rightarrow> (Throw (Error e), trace)
      | Inr np \<Rightarrow>
          (case reduce randomUUID (query np) (params np) of
             (bindParameters, query', calls) \<Rightarrow>
               (let query'' = row_limit query' (rowLimit np);
                    options = \<lparr>outFormat = OUT_FORMAT_OBJECT, autoCommit = True,
                                extendedMetaData = includeMetadata np\<rparr>
                in (case conn of
                      None \<Rightarrow> (Throw TypeError, trace)
                    | Some c \<Rightarrow>
                        (case execute c query'' bindParameters options of
                           Inl e \<Rightarrow>
                             (Throw (Error e), trace @ [Execute query'' bindParameters options])
                         | Inr result \<Rightarrow>
                             (Normal (returnItems (includeMetadata np) result),
                              trace @ [Execute query'' bindParameters options]))))))"

text \<open>Lines 268-270: the \<^verbatim>\<open>catch\<close> clause wraps what was thrown.\<close>

definition catch_block :: "('e error, 'a) completion \<Rightarrow> ('e error, 'a) completion" where
  "catch_block c = (case c of Normal a \<Rightarrow> Normal a | Throw e \<Rightarrow> Throw (NodeOperationError e))"

text \<open>
  Lines 270-279: the \<^verbatim>\<open>finally\<close> clause. The call of \<^verbatim>\<open>close\<close> is in a \<^verbatim>\<open>try\<close> of its own
  whose \<^verbatim>\<open>catch\<close> writes the error to the console.
\<close>

definition close_connection ::
  "('e, 'row, 'meta) connection \<Rightarrow> 'e event list \<Rightarrow> ('e, unit) completion \<times> 'e event list" where
  "close_connection c trace =
     (case close c of
        None \<Rightarrow> (Normal (), trace @ [Close])
      | Some closeErr \<Rightarrow> (Throw closeErr, trace @ [Close]))"

definition finally_block ::
  "('e, 'row, 'meta) connection option \<Rightarrow> 'e event list
     \<Rightarrow> ('e error, unit) completion \<times> 'e event list" where
  "finally_block conn trace =
     (case conn of
        None \<Rightarrow> (Normal (), trace)
      | Some c \<Rightarrow>
          (case close_connection c trace of
             (Normal u, trace') \<Rightarrow> (Normal (), trace')
           | (Throw closeErr, trace') \<Rightarrow> (Normal (), trace' @ [ConsoleError closeErr])))"

text \<open>
  \<^verbatim>\<open>execute\<close> from the point where the connection has been obtained (line 165) to its
  return (line 282). A \<^verbatim>\<open>finally\<close> clause that completes normally leaves the outcome of
  the \<^verbatim>\<open>try\<close> and \<^verbatim>\<open>catch\<close> clauses as it is; one that throws replaces it.
\<close>

definition execute_node ::
  "randomUUID \<Rightarrow> ('e, 'row, 'meta) connection option \<Rightarrow> 'e + node_parameters
     \<Rightarrow> ('e error, ('row, 'meta) INodeExecutionData list list) completion \<times> 'e event list" where
  "execute_node randomUUID conn getNodeParameter =
     (case try_block randomUUID conn getNodeParameter [] of
        (tried, trace) \<Rightarrow>
          (case finally_block conn trace of
             (Throw e, trace') \<Rightarrow> (Throw e, trace')
           | (Normal u, trace') \<Rightarrow>
               (case catch_block tried of
                  Throw e \<Rightarrow> (Throw e, trace')
                | Normal items \<Rightarrow> (Normal [items], trace'))))"

section \<open>Lemmas about the string operations\<close>

lemma GetSubstitution_plain:
  "CHR ''$'' \<notin> set t \<Longrightarrow> GetSubstitution m a b t = t"
  by (induction m a b t rule: GetSubstitution.induct) auto

lemma replaceAll_from_no_match:
  "pat \<noteq> [] \<Longrightarrow> \<not> sublist pat rest \<Longrightarrow> replaceAll_from pat t seen rest = rest"
proof (induction rest arbitrary: seen)
  case Nil
  then show ?case by (simp add: replaceAll_from.simps [of pat t seen "[]"])
next
  case (Cons c cs)
  from Cons.prems have np: "\<not> prefix pat (c # cs)" and "\<not> sublist pat cs"
    by (simp_all add: sublist_Cons_right)
  with Cons.IH Cons.prems have "replaceAll_from pat t (seen @ [c]) cs = cs" by blast
  with np show ?case by (simp add: replaceAll_from.simps [of pat t seen "c # cs"])
qed

lemma replaceAll_from_segment:
  "pat \<noteq> [] \<Longrightarrow> \<not> sublist pat (s @ butlast pat) \<Longrightarrow>
   replaceAll_from pat t seen (s @ pat @ rest) =
     s @ GetSubstitution pat (seen @ s) rest t @ replaceAll_from pat t (seen @ s @ pat) rest"
proof (induction s arbitrary: seen)
  case Nil
  then show ?case by (simp add: replaceAll_from.simps [of pat t seen "pat @ rest"])
next
  case (Cons c s)
  have "\<not> prefix pat ((c # s) @ pat @ rest)"
  proof
    assume pr: "prefix pat ((c # s) @ pat @ rest)"
    have eq: "(c # s) @ pat @ rest = ((c # s) @ butlast pat) @ ([last pat] @ rest)"
      using Cons.prems(1) by simp
    have len: "length pat \<le> length ((c # s) @ butlast pat)" by simp
    from pr have "prefix pat (((c # s) @ butlast pat) @ ([last pat] @ rest))"
      by (simp only: eq)
    moreover have "prefix ((c # s) @ butlast pat) (((c # s) @ butlast pat) @ ([last pat] @ rest))"
      by (rule prefixI) simp
    ultimately have "prefix pat ((c # s) @ butlast pat)"
      using len by (rule prefix_length_prefix)
    then show False using Cons.prems(2) prefix_imp_sublist by blast
  qed
  then have np: "\<not> prefix pat (c # s @ pat @ rest)" by simp
  from Cons.prems have "\<not> sublist pat (s @ butlast pat)"
    by (simp add: sublist_Cons_right)
  with Cons.IH [of "seen @ [c]"] Cons.prems(1)
  have "replaceAll_from pat t (seen @ [c]) (s @ pat @ rest) =
     s @ GetSubstitution pat (seen @ [c] @ s) rest t @ replaceAll_from pat t (seen @ [c] @ s @ pat) rest"
    by simp
  with np show ?case by (simp add: replaceAll_from.simps [of pat t seen "c # s @ pat @ rest"])
qed

lemma no_overlap:
  assumes "c \<notin> set nm" and "\<not> sublist (c # nm) s"
  shows "\<not> sublist (c # nm) (s @ butlast (c # nm))"
proof
  assume "sublist (c # nm) (s @ butlast (c # nm))"
  then consider "sublist (c # nm) s" | "sublist (c # nm) (butlast (c # nm))"
    | xs1 xs2 where "c # nm = xs1 @ xs2" "suffix xs1 s" "prefix xs2 (butlast (c # nm))"
    unfolding sublist_append by blast
  then show False
  proof cases
    case 1
    with assms show False by simp
  next
    case 2
    then have "length (c # nm) \<le> length (butlast (c # nm))" by (rule sublist_length_le)
    then show False by (simp del: butlast.simps)
  next
    case 3
    show False
    proof (cases xs1)
      case Nil
      with 3 have "prefix (c # nm) (butlast (c # nm))" by simp
      then have "length (c # nm) \<le> length (butlast (c # nm))" by (rule prefix_length_le)
      then show False by (simp del: butlast.simps)
    next
      case (Cons a as)
      with 3 have nm: "nm = as @ xs2" by simp
      show False
      proof (cases xs2)
        case Nil
        with 3 have "suffix (c # nm) s" by simp
        then have "sublist (c # nm) s" by (rule suffix_imp_sublist)
        with assms show False by simp
      next
        case xs2: (Cons b bs)
        with nm have ne: "nm \<noteq> []" by simp
        then have "butlast (c # nm) = c # butlast nm" by simp
        with 3(3) have "prefix xs2 (c # butlast nm)" by (simp only:)
        with xs2 have "b = c" by simp
        with nm xs2 assms(1) show False by simp
      qed
    qed
  qed
qed

lemma replaceAll_from_join:
  assumes "pat \<noteq> []" and "CHR ''$'' \<notin> set t"
  shows "segs \<noteq> [] \<Longrightarrow> \<forall>s\<in>set (butlast segs). \<not> sublist pat (s @ butlast pat) \<Longrightarrow>
     \<not> sublist pat (last segs) \<Longrightarrow>
     replaceAll_from pat t seen (join pat segs) = join t segs"
proof (induction segs arbitrary: seen rule: induct_list012)
  case 1
  then show ?case by simp
next
  case (2 s)
  with assms show ?case by (simp add: replaceAll_from_no_match)
next
  case (3 s s' ss)
  from "3.prems" have a: "\<not> sublist pat (s @ butlast pat)" by simp
  from "3.prems" have b: "\<forall>x\<in>set (butlast (s' # ss)). \<not> sublist pat (x @ butlast pat)"
    and c: "\<not> sublist pat (last (s' # ss))" by simp_all
  have "replaceAll_from pat t (seen @ s @ pat) (join pat (s' # ss)) = join t (s' # ss)"
    by (rule "3.IH"(2)) (use b c in simp_all)
  then show ?case
    using replaceAll_from_segment [OF assms(1) a, of t seen "join pat (s' # ss)"]
    by (simp add: GetSubstitution_plain assms)
qed

lemma replaceAll_placeholder:
  assumes "CHR '':'' \<notin> set nm" and "CHR ''$'' \<notin> set t"
    and "segs \<noteq> []" and "\<forall>s\<in>set segs. \<not> sublist ('':'' @ nm) s"
  shows "replaceAll (join ('':'' @ nm) segs) ('':'' @ nm) t = join t segs"
proof -
  have "\<forall>s\<in>set (butlast segs). \<not> sublist ('':'' @ nm) (s @ butlast ('':'' @ nm))"
    using assms(1,4) no_overlap [of "CHR '':''" nm] by (auto dest: in_set_butlastD)
  moreover have "\<not> sublist ('':'' @ nm) (last segs)"
    using assms(3,4) by simp
  ultimately show ?thesis
    unfolding replaceAll_def
    by (intro replaceAll_from_join assms) simp_all
qed

lemma replaceAll_from_char:
  "replaceAll_from [a] [b] seen rest = map (\<lambda>c. if c = a then b else c) rest"
proof (induction rest arbitrary: seen)
  case Nil
  show ?case by (simp add: replaceAll_from.simps [of "[a]" "[b]" seen "[]"])
next
  case (Cons c cs)
  show ?case
  proof (cases "c = a")
    case True
    have "replaceAll_from [a] [b] (seen @ [a]) cs = map (\<lambda>c. if c = a then b else c) cs"
      by (rule Cons.IH)
    with True show ?thesis
      by (simp add: replaceAll_from.simps [of "[a]" "[b]" seen "a # cs"])
  next
    case False
    have "replaceAll_from [a] [b] (seen @ [c]) cs = map (\<lambda>c. if c = a then b else c) cs"
      by (rule Cons.IH)
    with False show ?thesis
      by (simp add: replaceAll_from.simps [of "[a]" "[b]" seen "c # cs"])
  qed
qed

lemma replaceAll_char:
  "replaceAll s [a] [b] = map (\<lambda>c. if c = a then b else c) s"
  by (simp add: replaceAll_def replaceAll_from_char)

lemma split_not_Nil: "split sep s \<noteq> []"
  by (induction s) (auto split: list.splits)

lemma split_no_sep: "sep \<notin> set s \<Longrightarrow> split sep s = [s]"
  by (induction s) auto

lemma concat_sep_join:
  "xs \<noteq> [] \<Longrightarrow> concat (map (\<lambda>x. f x @ [c]) xs) = join [c] (map f xs) @ [c]"
proof (induction xs)
  case Nil
  then show ?case by simp
next
  case (Cons x xs)
  then show ?case by (cases xs) auto
qed

lemma set_join: "set (join sep xs) \<subseteq> set sep \<union> \<Union> (set ` set xs)"
  by (induction sep xs rule: join.induct) auto

section \<open>Lemmas about numbers\<close>







lemma StringToNumber_empty: "StringToNumber [] = Fin False 0 0"
  by (simp add: StringToNumber_def StringNumericLiteral_def trim_def)

subsection \<open>Evaluating literals\<close>

lemma bit_length_0: "bit_length 0 = 0"
  by (simp add: bit_length.simps)

lemma bit_length_1: "bit_length (Suc 0) = Suc 0"
  by (simp add: bit_length.simps [of "Suc 0"] bit_length_0)

lemma bit_length_numeral: "bit_length (numeral k) = Suc (bit_length (numeral k div 2))"
  by (subst bit_length.simps) simp

lemmas eval_double = bit_length_0 bit_length_1 bit_length_numeral binary_exponent_def
  round_half_even_def nearest_double_def double_of_decimal_def same_double_def Let_def

lemmas eval_literal = StringToNumber_def StringNumericLiteral_def trim_def StrWhiteSpaceChar_def
  NonDecimalIntegerLiteral_def StrDecimalLiteral_def StrUnsignedDecimalLiteral_def
  ExponentPart_opt_def SignedInteger_def DecimalDigits_def DecimalDigit_def radix_value_def
  digit_value_def Let_def

text \<open>
  Three literals that are no double: the first lies halfway between the doubles
  \<open>2 ^ 53\<close> and \<open>2 ^ 53 + 2\<close> and is rounded to the even one, \<open>4503599627370496 * 2 ^ 1\<close>;
  the second is beyond the largest double; the third is below half the smallest one.
\<close>

lemma StringToNumber_nearest_double:
  "StringNumericLiteral ''9007199254740993'' = Some (number_value False 9007199254740993 0) \<and>
   double_of_decimal 9007199254740993 0 = Some (4503599627370496, 1)"
  by (simp add: eval_literal eval_double)

lemma StringToNumber_overflow: "StringToNumber ''1e400'' = Infinity False"
  by (simp add: eval_literal number_value_def eval_double)

lemma StringToNumber_underflow: "StringToNumber ''1e-400'' = Fin False 0 0"
  by (simp add: eval_literal number_value_def eval_double)

section \<open>Lemmas about UUIDs\<close>

lemma is_uuid_chars: "is_uuid s \<Longrightarrow> c \<in> set s \<Longrightarrow> c \<in> set ''0123456789abcdef-''"
  unfolding is_uuid_def list_all_iff by blast

lemma is_uuid_no_dollar: "is_uuid s \<Longrightarrow> CHR ''$'' \<notin> set s"
proof
  assume "is_uuid s" and "CHR ''$'' \<in> set s"
  then have "CHR ''$'' \<in> set ''0123456789abcdef-''" by (rule is_uuid_chars)
  then show False by simp
qed

lemma is_uuid_no_underscore: "is_uuid s \<Longrightarrow> CHR ''_'' \<notin> set s"
proof
  assume "is_uuid s" and "CHR ''_'' \<in> set s"
  then have "CHR ''_'' \<in> set ''0123456789abcdef-''" by (rule is_uuid_chars)
  then show False by simp
qed

lemma uniqueSuffix_no_dollar:
  "is_uuid s \<Longrightarrow> CHR ''$'' \<notin> set (replaceAll s ''-'' ''_'')"
  using is_uuid_no_dollar [of s] by (auto simp: replaceAll_char)

lemma inj_on_replace_char: "y \<notin> A \<Longrightarrow> inj_on (\<lambda>c. if c = x then y else c) A"
  by (auto simp: inj_on_def)

lemma uniqueSuffix_inj:
  assumes "is_uuid a" and "is_uuid b" and "replaceAll a ''-'' ''_'' = replaceAll b ''-'' ''_''"
  shows "a = b"
proof -
  let ?f = "\<lambda>c. if c = CHR ''-'' then CHR ''_'' else c"
  have "CHR ''_'' \<notin> set a \<union> set b"
    using is_uuid_no_underscore [OF assms(1)] is_uuid_no_underscore [OF assms(2)] by simp
  then have "inj_on ?f (set a \<union> set b)" by (rule inj_on_replace_char)
  moreover from assms(3) have "map ?f a = map ?f b" by (simp add: replaceAll_char)
  ultimately show ?thesis by (rule map_inj_on [rotated])
qed

lemma is_uuid_example_uuids: "is_uuid (example_uuids i)"
proof -
  have "is_uuid ''1b4e28ba-2fa1-41d2-883f-0016d3cca427''" by code_simp
  moreover have "is_uuid ''6fa459ea-ee8a-4ca4-894e-db77e160355e''" by code_simp
  moreover have "is_uuid ''9a7b330a-a736-41e1-b1d7-4f2c8b1a0c55''" by code_simp
  ultimately show ?thesis by (simp add: example_uuids_def)
qed

section \<open>Lemmas about the bind parameters\<close>

lemma map_upds_nth:
  "distinct ks \<Longrightarrow> length ks = length vs \<Longrightarrow> i < length ks \<Longrightarrow>
   (m(ks [\<mapsto>] vs)) (ks ! i) = Some (vs ! i)"
proof (induction ks arbitrary: vs m i)
  case Nil
  then show ?case by simp
next
  case (Cons k ks)
  then obtain v vs' where vs: "vs = v # vs'" by (cases vs) auto
  show ?case
  proof (cases i)
    case 0
    from Cons.prems have "k \<notin> set ks" by simp
    then have "((m(k \<mapsto> v))(ks [\<mapsto>] vs')) k = Some v"
      by simp
    with 0 vs show ?thesis by simp
  next
    case (Suc j)
    from Cons.prems vs Suc have "distinct ks" "length ks = length vs'" "j < length ks"
      by simp_all
    then have "((m(k \<mapsto> v))(ks [\<mapsto>] vs')) (ks ! j) = Some (vs' ! j)"
      by (rule Cons.IH)
    with Suc vs show ?thesis by (simp only: map_upds_Cons nth_Cons_Suc)
  qed
qed


lemma assign_other: "key \<noteq> ''__proto__'' \<Longrightarrow> assign acc key b = acc(key \<mapsto> b)"
  by (simp add: assign_def)

lemma assign_proto: "assign acc ''__proto__'' b = acc"
  by (simp add: assign_def)

lemma foldl_assign_upds:
  "''__proto__'' \<notin> set ks \<Longrightarrow> length ks = length bs \<Longrightarrow>
   foldl (\<lambda>a (k, b). assign a k b) acc (zip ks bs) = acc(ks [\<mapsto>] bs)"
proof (induction ks arbitrary: bs acc)
  case Nil
  then show ?case by simp
next
  case (Cons k ks)
  then obtain b bs' where bs: "bs = b # bs'" by (cases bs) auto
  from Cons.prems have k: "k \<noteq> ''__proto__''" and ks: "''__proto__'' \<notin> set ks" by auto
  from Cons.prems bs have len: "length ks = length bs'" by simp
  have "foldl (\<lambda>a (k, b). assign a k b) (acc(k \<mapsto> b)) (zip ks bs') = (acc(k \<mapsto> b))(ks [\<mapsto>] bs')"
    using ks len by (rule Cons.IH)
  with k bs show ?case by (simp add: assign_other)
qed

lemma foldl_assign_entries:
  "foldl (\<lambda>a (k, b). assign a k b) acc kbs key = Some b \<Longrightarrow>
   acc key = Some b \<or> b \<in> snd ` set kbs"
proof (induction kbs arbitrary: acc)
  case Nil
  then show ?case by simp
next
  case (Cons kb kbs)
  obtain k' b' where kb: "kb = (k', b')" by (cases kb)
  from Cons.prems kb
  have "foldl (\<lambda>a (k, b). assign a k b) (assign acc k' b') kbs key = Some b" by simp
  then have "assign acc k' b' key = Some b \<or> b \<in> snd ` set kbs" by (rule Cons.IH)
  then show ?case
  proof
    assume "assign acc k' b' key = Some b"
    then have "acc key = Some b \<or> b = b'"
      by (auto simp: assign_def split: if_splits)
    with kb show ?thesis by auto
  next
    assume "b \<in> snd ` set kbs"
    then show ?thesis by simp
  qed
qed

lemma length_is_uuid: "is_uuid s \<Longrightarrow> length s = 36"
proof -
  assume "is_uuid s"
  then have "map (\<lambda>c. c = CHR ''-'') s =
       replicate 8 False @ [True] @ replicate 4 False @ [True] @ replicate 4 False @ [True] @
       replicate 4 False @ [True] @ replicate 12 False"
    by (simp add: is_uuid_def)
  then have "length (map (\<lambda>c. c = CHR ''-'') s) =
       length (replicate 8 False @ [True] @ replicate 4 False @ [True] @ replicate 4 False @ [True] @
       replicate 4 False @ [True] @ replicate 12 False)"
    by (rule arg_cong)
  then show ?thesis by simp
qed

lemma synthetic_name_not_proto:
  assumes "is_uuid s"
  shows "nm @ replaceAll s ''-'' ''_'' \<noteq> ''__proto__''"
proof
  assume "nm @ replaceAll s ''-'' ''_'' = ''__proto__''"
  then have "length (nm @ replaceAll s ''-'' ''_'') = length ''__proto__''" by (rule arg_cong)
  with length_is_uuid [OF assms] show False by (simp add: replaceAll_char)
qed

lemma reducer_plain:
  "\<not> parseInStatement p \<Longrightarrow>
   reducer u (acc, q, n) p =
     (assign acc (name p) \<lparr>type = dataType p, val = bind_val p (value p)\<rparr>, q, n)"
  by (simp add: reducer_def)

lemma reduce_snoc: "reduce u sql (ps @ [p]) = reducer u (reduce u sql ps) p"
  by (simp add: reduce_def)

lemma foldl_reducer_plain_any:
  "\<forall>p\<in>set ps. \<not> parseInStatement p \<Longrightarrow>
   foldl (reducer u1) st ps = foldl (reducer u2) st ps"
proof (induction ps arbitrary: st)
  case Nil
  show ?case by simp
next
  case (Cons p ps)
  obtain acc q n where st: "st = (acc, q, n)" by (cases st)
  from Cons.prems have "reducer u1 st p = reducer u2 st p"
    by (simp add: st reducer_plain)
  with Cons show ?case by simp
qed

lemma synthetic_names_Suc:
  "synthetic_names u p n (Suc k) =
     (name p @ replaceAll (u n) ''-'' ''_'') # synthetic_names u p (Suc n) k"
  by (simp add: synthetic_names_def upt_conv_Cons map_Suc_upt [symmetric] del: upt_Suc)


lemma synthetic_names_nth:
  "i < k \<Longrightarrow> synthetic_names u p n k ! i = name p @ replaceAll (u (n + i)) ''-'' ''_''"
  by (simp add: synthetic_names_def)

lemma length_synthetic_names [simp]: "length (synthetic_names u p n k) = k"
  by (simp add: synthetic_names_def)

lemma synthetic_names_one:
  "synthetic_names u p n (Suc 0) = [name p @ replaceAll (u n) ''-'' ''_'']"
  by (simp add: synthetic_names_def)

lemma distinct_synthetic_names:
  assumes "\<forall>i<k. is_uuid (u (n + i))" and "distinct (map (\<lambda>i. u (n + i)) [0..<k])"
  shows "distinct (synthetic_names u p n k)"
proof -
  have "inj_on (\<lambda>i. name p @ replaceAll (u (n + i)) ''-'' ''_'') {0..<k}"
  proof (rule inj_onI)
    fix i j assume i: "i \<in> {0..<k}" and j: "j \<in> {0..<k}"
      and eq: "name p @ replaceAll (u (n + i)) ''-'' ''_'' = name p @ replaceAll (u (n + j)) ''-'' ''_''"
    from eq have eq': "replaceAll (u (n + i)) ''-'' ''_'' = replaceAll (u (n + j)) ''-'' ''_''"
      by (simp only: same_append_eq)
    from assms(1) i have ui: "is_uuid (u (n + i))" by simp
    from assms(1) j have uj: "is_uuid (u (n + j))" by simp
    from ui uj eq' have "u (n + i) = u (n + j)" by (rule uniqueSuffix_inj)
    moreover from assms(2) have "inj_on (\<lambda>i. u (n + i)) {0..<k}" by (simp add: distinct_map)
    ultimately show "i = j" using i j by (auto dest: inj_onD)
  qed
  then show ?thesis by (simp add: synthetic_names_def distinct_map)
qed

lemma synthetic_names_not_proto:
  "\<forall>i<k. is_uuid (u (n + i)) \<Longrightarrow> ''__proto__'' \<in> set (synthetic_names u p n k) \<Longrightarrow> False"
proof -
  assume a: "\<forall>i<k. is_uuid (u (n + i))" and "''__proto__'' \<in> set (synthetic_names u p n k)"
  then obtain i where i: "i < k" and eq: "name p @ replaceAll (u (n + i)) ''-'' ''_'' = ''__proto__''"
    by (auto simp: synthetic_names_def)
  from a i have "is_uuid (u (n + i))" by simp
  then have "name p @ replaceAll (u (n + i)) ''-'' ''_'' \<noteq> ''__proto__''"
    by (rule synthetic_name_not_proto)
  with eq show False by (rule notE [rotated])
qed

lemma for_loop_eq:
  "for_loop u p vs (acc, ic, n) =
     (foldl (\<lambda>a (k, b). assign a k b) acc
        (zip (synthetic_names u p n (length vs))
             (map (\<lambda>v. \<lparr>type = dataType p, val = bind_val p (Str v)\<rparr>) vs)),
      ic @ concat (map (\<lambda>nm. ('':'' @ nm) @ '','') (synthetic_names u p n (length vs))),
      n + length vs)"
proof (induction vs arbitrary: acc ic n)
  case Nil
  show ?case by (simp add: synthetic_names_def)
next
  case (Cons v vs)
  let ?nm = "name p @ replaceAll (u n) ''-'' ''_''"
  let ?b = "\<lparr>type = dataType p, val = bind_val p (Str v)\<rparr>"
  have "for_loop u p (v # vs) (acc, ic, n) =
        for_loop u p vs (assign acc ?nm ?b, ic @ '':'' @ ?nm @ '','', Suc n)"
    by (simp only: for_loop.simps Let_def)
  also have "\<dots> =
     (foldl (\<lambda>a (k, b). assign a k b) (assign acc ?nm ?b)
        (zip (synthetic_names u p (Suc n) (length vs))
             (map (\<lambda>v. \<lparr>type = dataType p, val = bind_val p (Str v)\<rparr>) vs)),
      (ic @ '':'' @ ?nm @ '','') @
        concat (map (\<lambda>nm. ('':'' @ nm) @ '','') (synthetic_names u p (Suc n) (length vs))),
      Suc n + length vs)"
    by (rule Cons.IH)
  also have "\<dots> =
     (foldl (\<lambda>a (k, b). assign a k b) acc
        (zip (synthetic_names u p n (length (v # vs)))
             (map (\<lambda>v. \<lparr>type = dataType p, val = bind_val p (Str v)\<rparr>) (v # vs))),
      ic @ concat (map (\<lambda>nm. ('':'' @ nm) @ '','') (synthetic_names u p n (length (v # vs)))),
      n + length (v # vs))"
    by (simp only: synthetic_names_Suc length_Cons list.map zip_Cons_Cons foldl_Cons
          prod.case append_assoc concat.simps add_Suc_right add_Suc)
  finally show ?case .
qed

lemma reducer_expand:
  assumes "parseInStatement p"
  shows "reducer u (acc, q, n) p =
     (foldl (\<lambda>a (k, b). assign a k b) acc
        (zip (synthetic_names u p n (length (split (CHR '','') (String (value p)))))
             (map (\<lambda>v. \<lparr>type = dataType p, val = bind_val p (Str v)\<rparr>)
                (split (CHR '','') (String (value p))))),
      replaceAll q ('':'' @ name p)
        (''('' @ join '','' (map (\<lambda>nm. '':'' @ nm)
            (synthetic_names u p n (length (split (CHR '','') (String (value p)))))) @ '')''),
      n + length (split (CHR '','') (String (value p))))"
proof -
  let ?vs = "split (CHR '','') (String (value p))"
  let ?names = "synthetic_names u p n (length ?vs)"
  have ne: "?names \<noteq> []" using split_not_Nil [of "CHR '',''" "String (value p)"]
    by (simp add: synthetic_names_def)
  have "butlast (''('' @ concat (map (\<lambda>nm. ('':'' @ nm) @ '','') ?names)) =
        ''('' @ join '','' (map (\<lambda>nm. '':'' @ nm) ?names)"
    using concat_sep_join [OF ne, of "\<lambda>nm. '':'' @ nm" "CHR '',''"]
    by (simp add: butlast_append)
  then show ?thesis using assms
    by (simp add: reducer_def for_loop_eq Let_def)
qed

lemma reducer_expand_binds:
  assumes "parseInStatement p"
    and "\<forall>i<length (split (CHR '','') (String (value p))). is_uuid (u (n + i))"
  shows "fst (reducer u (acc, q, n) p) =
     acc(synthetic_names u p n (length (split (CHR '','') (String (value p)))) [\<mapsto>]
           map (\<lambda>v. \<lparr>type = dataType p, val = bind_val p (Str v)\<rparr>)
             (split (CHR '','') (String (value p))))"
proof -
  have "''__proto__'' \<notin> set (synthetic_names u p n (length (split (CHR '','') (String (value p)))))"
    using synthetic_names_not_proto [OF assms(2), of p] by blast
  then show ?thesis
    by (simp add: reducer_expand [OF assms(1)] foldl_assign_upds)
qed

lemma reducer_expand_entries:
  assumes "parseInStatement p" and "fst (reducer u (acc, q, n) p) key = Some b"
  shows "acc key = Some b \<or>
     (\<exists>v\<in>set (split (CHR '','') (String (value p))).
        b = \<lparr>type = dataType p, val = bind_val p (Str v)\<rparr>)"
proof -
  from assms(2) have "foldl (\<lambda>a (k, b). assign a k b) acc
        (zip (synthetic_names u p n (length (split (CHR '','') (String (value p)))))
             (map (\<lambda>v. \<lparr>type = dataType p, val = bind_val p (Str v)\<rparr>)
                (split (CHR '','') (String (value p))))) key = Some b"
    by (simp add: reducer_expand [OF assms(1)])
  then have "acc key = Some b \<or>
     b \<in> snd ` set (zip (synthetic_names u p n (length (split (CHR '','') (String (value p)))))
             (map (\<lambda>v. \<lparr>type = dataType p, val = bind_val p (Str v)\<rparr>)
                (split (CHR '','') (String (value p)))))"
    by (rule foldl_assign_entries)
  then show ?thesis
    by (auto dest!: set_zip_rightD)
qed

lemma dom_reducer_expand:
  "parseInStatement p \<Longrightarrow>
   \<forall>i<length (split (CHR '','') (String (value p))). is_uuid (u (n + i)) \<Longrightarrow>
   dom (fst (reducer u (acc, q, n) p)) =
     set (synthetic_names u p n (length (split (CHR '','') (String (value p))))) \<union> dom acc"
  by (simp add: reducer_expand_binds)

lemma is_uuid_other_uuids: "is_uuid (other_uuids i)"
proof -
  have "is_uuid ''c73bcdcc-2669-4bf6-81d3-e4ae73fb11fd''" by code_simp
  moreover have "is_uuid ''0e37df36-f698-41c1-b29b-6e1a1d1e2a44''" by code_simp
  moreover have "is_uuid ''5b0a8b3e-7c2f-4d4a-9f0b-3f9c1d2e6a77''" by code_simp
  ultimately show ?thesis by (simp add: other_uuids_def)
qed

section \<open>Lemmas about the invocation\<close>

lemma try_block_close:
  "try_block u (Some (c\<lparr>close := k\<rparr>)) gp tr = try_block u (Some c) gp tr"
  by (simp add: try_block_def Let_def split: sum.splits prod.splits)

lemma try_block_trace:
  "count_list (snd (try_block u conn gp [])) Close = 0"
  by (simp add: try_block_def Let_def split: sum.splits prod.splits option.splits)

lemma finally_block_Some:
  "finally_block (Some c) tr =
     (Normal (), tr @ [Close] @ (case close c of None \<Rightarrow> [] | Some e \<Rightarrow> [ConsoleError e]))"
  by (simp add: finally_block_def close_connection_def split: option.splits)

lemma execute_node_Some:
  "execute_node u (Some c) gp =
     (case fst (try_block u (Some c) gp []) of
        Normal items \<Rightarrow> Normal [items]
      | Throw e \<Rightarrow> Throw (NodeOperationError e),
      snd (try_block u (Some c) gp []) @ [Close] @
        (case close c of None \<Rightarrow> [] | Some e \<Rightarrow> [ConsoleError e]))"
  by (simp add: execute_node_def finally_block_Some catch_block_def
        split: prod.splits completion.splits)

lemma execute_node_answer:
  "fst (execute_node u (Some \<lparr>execute = (\<lambda>q b opts. Inr r), close = k\<rparr>) (Inr np)) =
     Normal [returnItems (includeMetadata np) r]"
  by (simp add: execute_node_Some try_block_def Let_def split: prod.splits)

section \<open>The placeholder of a list parameter\<close>

text \<open>
  C1 fails on the code. The query has the placeholders \<^verbatim>\<open>:cat\<close> and \<^verbatim>\<open>:category\<close> of two
  parameters; expanding the list parameter \<^verbatim>\<open>cat\<close> rewrites the first four characters
  of \<^verbatim>\<open>:category\<close> as well, and leaves the bind of \<^verbatim>\<open>category\<close> without a placeholder.
\<close>

theorem longer_placeholder_rewritten:
  "fst (snd (reduce example_uuids ''SELECT * FROM p WHERE c IN :cat AND d = :category''
     [\<lparr>name = ''cat'', value = Str ''1,2'', datatype = ''number'', parseInStatement = True\<rparr>,
      \<lparr>name = ''category'', value = Str ''x'', datatype = ''string'', parseInStatement = False\<rparr>])) =
   ''SELECT * FROM p WHERE c IN (:cat1b4e28ba_2fa1_41d2_883f_0016d3cca427,:cat6fa459ea_ee8a_4ca4_894e_db77e160355e) AND d = (:cat1b4e28ba_2fa1_41d2_883f_0016d3cca427,:cat6fa459ea_ee8a_4ca4_894e_db77e160355e)egory'' \<and>
   dom (fst (reduce example_uuids ''SELECT * FROM p WHERE c IN :cat AND d = :category''
     [\<lparr>name = ''cat'', value = Str ''1,2'', datatype = ''number'', parseInStatement = True\<rparr>,
      \<lparr>name = ''category'', value = Str ''x'', datatype = ''string'', parseInStatement = False\<rparr>])) =
   {''cat1b4e28ba_2fa1_41d2_883f_0016d3cca427'', ''cat6fa459ea_ee8a_4ca4_894e_db77e160355e'',
    ''category''}"
proof -
  let ?p = "\<lparr>name = ''cat'', value = Str ''1,2'', datatype = ''number'', parseInStatement = True\<rparr>"
  let ?p' = "\<lparr>name = ''category'', value = Str ''x'', datatype = ''string'', parseInStatement = False\<rparr>"
  let ?q = "''SELECT * FROM p WHERE c IN :cat AND d = :category''"
  have nm: "synthetic_names example_uuids ?p 0 (Suc (Suc 0)) =
      [''cat1b4e28ba_2fa1_41d2_883f_0016d3cca427'', ''cat6fa459ea_ee8a_4ca4_894e_db77e160355e'']"
    by (simp add: synthetic_names_def replaceAll_char example_uuids_def)
  have r: "replaceAll ?q '':cat''
      ''(:cat1b4e28ba_2fa1_41d2_883f_0016d3cca427,:cat6fa459ea_ee8a_4ca4_894e_db77e160355e)'' =
    ''SELECT * FROM p WHERE c IN (:cat1b4e28ba_2fa1_41d2_883f_0016d3cca427,:cat6fa459ea_ee8a_4ca4_894e_db77e160355e) AND d = (:cat1b4e28ba_2fa1_41d2_883f_0016d3cca427,:cat6fa459ea_ee8a_4ca4_894e_db77e160355e)egory''"
    by code_simp
  have q: "fst (snd (reduce example_uuids ?q [?p, ?p'])) =
    ''SELECT * FROM p WHERE c IN (:cat1b4e28ba_2fa1_41d2_883f_0016d3cca427,:cat6fa459ea_ee8a_4ca4_894e_db77e160355e) AND d = (:cat1b4e28ba_2fa1_41d2_883f_0016d3cca427,:cat6fa459ea_ee8a_4ca4_894e_db77e160355e)egory''"
    using r by (simp add: reduce_def reducer_plain reducer_expand nm)
  have "dom (fst (reduce example_uuids ?q [?p, ?p'])) =
     {''cat1b4e28ba_2fa1_41d2_883f_0016d3cca427'', ''cat6fa459ea_ee8a_4ca4_894e_db77e160355e'',
      ''category''}"
    by (auto simp add: reduce_def reducer_plain reducer_expand nm assign_def)
  with q show ?thesis by simp
qed

text \<open>
  C2 (the placeholder of a list parameter is replaced by the list of the placeholders of
  the binds made for its values) fails on the code. The name \<^verbatim>\<open>x$$\<close> of a list parameter
  is part of the replacement text that line 235 gives to \<^verbatim>\<open>replaceAll\<close>, where \<^verbatim>\<open>$$\<close> stands
  for one dollar sign: the two values are bound under \<^verbatim>\<open>x$$\<close> followed by their UUIDs, and
  the placeholders written into the query are \<^verbatim>\<open>:x$\<close> followed by the UUIDs, which name no
  bind.
\<close>

theorem dollar_name_list_placeholders_unbound:
  "fst (snd (reduce example_uuids ''SELECT * FROM t WHERE c IN :x$$''
     [\<lparr>name = ''x$$'', value = Str ''A,B'', datatype = ''string'', parseInStatement = True\<rparr>])) =
   ''SELECT * FROM t WHERE c IN (:x$1b4e28ba_2fa1_41d2_883f_0016d3cca427,:x$6fa459ea_ee8a_4ca4_894e_db77e160355e)'' \<and>
   dom (fst (reduce example_uuids ''SELECT * FROM t WHERE c IN :x$$''
     [\<lparr>name = ''x$$'', value = Str ''A,B'', datatype = ''string'', parseInStatement = True\<rparr>])) =
   {''x$$1b4e28ba_2fa1_41d2_883f_0016d3cca427'', ''x$$6fa459ea_ee8a_4ca4_894e_db77e160355e''}"
proof -
  let ?p = "\<lparr>name = ''x$$'', value = Str ''A,B'', datatype = ''string'', parseInStatement = True\<rparr>"
  let ?q = "''SELECT * FROM t WHERE c IN :x$$''"
  have nm: "synthetic_names example_uuids ?p 0 (Suc (Suc 0)) =
      [''x$$1b4e28ba_2fa1_41d2_883f_0016d3cca427'', ''x$$6fa459ea_ee8a_4ca4_894e_db77e160355e'']"
    by (simp add: synthetic_names_def replaceAll_char example_uuids_def)
  have r: "replaceAll ?q '':x$$''
      ''(:x$$1b4e28ba_2fa1_41d2_883f_0016d3cca427,:x$$6fa459ea_ee8a_4ca4_894e_db77e160355e)'' =
    ''SELECT * FROM t WHERE c IN (:x$1b4e28ba_2fa1_41d2_883f_0016d3cca427,:x$6fa459ea_ee8a_4ca4_894e_db77e160355e)''"
    by code_simp
  have q: "fst (snd (reduce example_uuids ?q [?p])) =
    ''SELECT * FROM t WHERE c IN (:x$1b4e28ba_2fa1_41d2_883f_0016d3cca427,:x$6fa459ea_ee8a_4ca4_894e_db77e160355e)''"
    using r by (simp add: reduce_def reducer_expand nm)
  have "dom (fst (reduce example_uuids ?q [?p])) =
     {''x$$1b4e28ba_2fa1_41d2_883f_0016d3cca427'', ''x$$6fa459ea_ee8a_4ca4_894e_db77e160355e''}"
    by (auto simp add: reduce_def reducer_expand nm assign_def)
  with q show ?thesis by simp
qed

text \<open>
  C8 (a list parameter with a single value gets one bind, and its placeholder becomes a
  clause with the one placeholder of that bind) fails on the code, by the same
  replacement patterns. The list parameter \<^verbatim>\<open>x$$\<close> with
  the single value \<^verbatim>\<open>A\<close> is bound under \<^verbatim>\<open>x$$\<close> followed by the UUID, and the one
  placeholder written into the query is \<^verbatim>\<open>:x$\<close> followed by the UUID, which names no
  bind. For the name \<^verbatim>\<open>x$&\<close>, where \<^verbatim>\<open>$&\<close> stands for the matched text, the text written
  into the query has two placeholders.
\<close>

theorem dollar_name_single_value_placeholder_unbound:
  "fst (snd (reduce example_uuids ''SELECT * FROM t WHERE c IN :x$$''
     [\<lparr>name = ''x$$'', value = Str ''A'', datatype = ''string'', parseInStatement = True\<rparr>])) =
   ''SELECT * FROM t WHERE c IN (:x$1b4e28ba_2fa1_41d2_883f_0016d3cca427)'' \<and>
   dom (fst (reduce example_uuids ''SELECT * FROM t WHERE c IN :x$$''
     [\<lparr>name = ''x$$'', value = Str ''A'', datatype = ''string'', parseInStatement = True\<rparr>])) =
   {''x$$1b4e28ba_2fa1_41d2_883f_0016d3cca427''} \<and>
   fst (snd (reduce example_uuids ''SELECT * FROM t WHERE c IN :x$&''
     [\<lparr>name = ''x$&'', value = Str ''A'', datatype = ''string'', parseInStatement = True\<rparr>])) =
   ''SELECT * FROM t WHERE c IN (:x:x$&1b4e28ba_2fa1_41d2_883f_0016d3cca427)''"
proof -
  let ?p = "\<lparr>name = ''x$$'', value = Str ''A'', datatype = ''string'', parseInStatement = True\<rparr>"
  let ?p' = "\<lparr>name = ''x$&'', value = Str ''A'', datatype = ''string'', parseInStatement = True\<rparr>"
  have sfx: "replaceAll (example_uuids 0) ''-'' ''_'' = ''1b4e28ba_2fa1_41d2_883f_0016d3cca427''"
    by (simp add: replaceAll_char example_uuids_def)
  have r: "replaceAll ''SELECT * FROM t WHERE c IN :x$$'' '':x$$''
      ''(:x$$1b4e28ba_2fa1_41d2_883f_0016d3cca427)'' =
    ''SELECT * FROM t WHERE c IN (:x$1b4e28ba_2fa1_41d2_883f_0016d3cca427)''"
    by code_simp
  have r': "replaceAll ''SELECT * FROM t WHERE c IN :x$&'' '':x$&''
      ''(:x$&1b4e28ba_2fa1_41d2_883f_0016d3cca427)'' =
    ''SELECT * FROM t WHERE c IN (:x:x$&1b4e28ba_2fa1_41d2_883f_0016d3cca427)''"
    by code_simp
  have q: "fst (snd (reduce example_uuids ''SELECT * FROM t WHERE c IN :x$$'' [?p])) =
    ''SELECT * FROM t WHERE c IN (:x$1b4e28ba_2fa1_41d2_883f_0016d3cca427)''"
    using r by (simp add: reduce_def reducer_expand synthetic_names_one sfx)
  have q': "fst (snd (reduce example_uuids ''SELECT * FROM t WHERE c IN :x$&'' [?p'])) =
    ''SELECT * FROM t WHERE c IN (:x:x$&1b4e28ba_2fa1_41d2_883f_0016d3cca427)''"
    using r' by (simp add: reduce_def reducer_expand synthetic_names_one sfx)
  have "dom (fst (reduce example_uuids ''SELECT * FROM t WHERE c IN :x$$'' [?p])) =
     {''x$$1b4e28ba_2fa1_41d2_883f_0016d3cca427''}"
    by (auto simp add: reduce_def reducer_expand synthetic_names_one sfx assign_def)
  with q q' show ?thesis by simp
qed

section \<open>Parameters bound as they are\<close>

text \<open>
  C3 (without list parameters the bind parameters have one entry for each parameter,
  under its name) fails on the code. Neither parameter asks for a list, and the second is named
  \<^verbatim>\<open>__proto__\<close>: its bind becomes the prototype of the bind parameters object, so the two
  parameters leave the one entry \<^verbatim>\<open>id\<close>, and the placeholder \<^verbatim>\<open>:__proto__\<close> has no bind.
\<close>

theorem proto_parameter_not_bound:
  "reduce example_uuids ''SELECT * FROM t WHERE id = :id AND a = :__proto__''
     [\<lparr>name = ''id'', value = Str ''A'', datatype = ''string'', parseInStatement = False\<rparr>,
      \<lparr>name = ''__proto__'', value = Str ''B'', datatype = ''string'', parseInStatement = False\<rparr>] =
   ([''id'' \<mapsto> \<lparr>type = STRING, val = Str ''A''\<rparr>],
    ''SELECT * FROM t WHERE id = :id AND a = :__proto__'', 0) \<and>
   dom (fst (reduce example_uuids ''SELECT * FROM t WHERE id = :id AND a = :__proto__''
     [\<lparr>name = ''id'', value = Str ''A'', datatype = ''string'', parseInStatement = False\<rparr>,
      \<lparr>name = ''__proto__'', value = Str ''B'', datatype = ''string'', parseInStatement = False\<rparr>])) =
   {''id''}"
  by (simp add: reduce_def reducer_plain assign_def dataType_def bind_val_def)

text \<open>
  C10. A parameter whose declared type is any text other than \<^verbatim>\<open>number\<close>, compiled after
  any parameters \<open>ps\<close>: when it does not ask for a list, the one bind made for it is
  typed STRING and holds its value converted to a string, and it is the entry under
  the parameter's name (for every name but \<^verbatim>\<open>__proto__\<close>, for which the object gets no
  entry); when it asks for a list, every entry that compiling it adds or changes is
  typed STRING and holds one of the pieces, and with UUIDs drawn the entries are the
  pieces under the names made from the UUIDs. No declared type makes the invocation
  fail: with a connection that answers, it returns the output items.
\<close>

theorem other_datatype_bound_as_string:
  assumes "datatype p \<noteq> ''number''" and "reduce u sql ps = (acc, q, n)"
  shows "(\<not> parseInStatement p \<longrightarrow>
        reduce u sql (ps @ [p]) =
          (assign acc (name p) \<lparr>type = STRING, val = Str (String (value p))\<rparr>, q, n)) \<and>
     (\<not> parseInStatement p \<and> name p \<noteq> ''__proto__'' \<longrightarrow>
        fst (reduce u sql (ps @ [p])) (name p) =
          Some \<lparr>type = STRING, val = Str (String (value p))\<rparr>) \<and>
     (parseInStatement p \<longrightarrow>
        (\<forall>key b. fst (reduce u sql (ps @ [p])) key = Some b \<longrightarrow>
           acc key = Some b \<or>
           (\<exists>v\<in>set (split (CHR '','') (String (value p))). b = \<lparr>type = STRING, val = Str v\<rparr>))) \<and>
     (parseInStatement p \<and>
      (\<forall>i<length (split (CHR '','') (String (value p))). is_uuid (u (n + i))) \<longrightarrow>
        fst (reduce u sql (ps @ [p])) =
          acc(synthetic_names u p n (length (split (CHR '','') (String (value p)))) [\<mapsto>]
                map (\<lambda>v. \<lparr>type = STRING, val = Str v\<rparr>) (split (CHR '','') (String (value p))))) \<and>
     fst (execute_node u (Some \<lparr>execute = (\<lambda>q b opts. Inr r), close = k\<rparr>)
            (Inr (np\<lparr>params := ps @ [p]\<rparr>))) =
       Normal [returnItems (includeMetadata np) r]"
proof -
  have step: "reduce u sql (ps @ [p]) = reducer u (acc, q, n) p"
    by (simp add: reduce_snoc assms(2))
  have b: "(\<lambda>v. \<lparr>type = dataType p, val = bind_val p (Str v)\<rparr>) =
           (\<lambda>v. \<lparr>type = STRING, val = Str v\<rparr>)"
    using assms(1) by (simp add: dataType_def bind_val_def)
  have c1: "\<not> parseInStatement p \<longrightarrow>
        reduce u sql (ps @ [p]) =
          (assign acc (name p) \<lparr>type = STRING, val = Str (String (value p))\<rparr>, q, n)"
    using assms(1) by (simp add: step reducer_plain dataType_def bind_val_def)
  have c2: "\<not> parseInStatement p \<and> name p \<noteq> ''__proto__'' \<longrightarrow>
        fst (reduce u sql (ps @ [p])) (name p) =
          Some \<lparr>type = STRING, val = Str (String (value p))\<rparr>"
    using c1 by (simp add: assign_other)
  have c3: "parseInStatement p \<longrightarrow>
        (\<forall>key b. fst (reduce u sql (ps @ [p])) key = Some b \<longrightarrow>
           acc key = Some b \<or>
           (\<exists>v\<in>set (split (CHR '','') (String (value p))). b = \<lparr>type = STRING, val = Str v\<rparr>))"
  proof (intro impI allI)
    fix key b
    assume l: "parseInStatement p" and e: "fst (reduce u sql (ps @ [p])) key = Some b"
    from e have "fst (reducer u (acc, q, n) p) key = Some b" by (simp only: step)
    with l have "acc key = Some b \<or>
       (\<exists>v\<in>set (split (CHR '','') (String (value p))).
          b = \<lparr>type = dataType p, val = bind_val p (Str v)\<rparr>)"
      by (rule reducer_expand_entries)
    then show "acc key = Some b \<or>
       (\<exists>v\<in>set (split (CHR '','') (String (value p))). b = \<lparr>type = STRING, val = Str v\<rparr>)"
      using assms(1) by (simp add: dataType_def bind_val_def)
  qed
  have c4: "parseInStatement p \<and>
      (\<forall>i<length (split (CHR '','') (String (value p))). is_uuid (u (n + i))) \<longrightarrow>
        fst (reduce u sql (ps @ [p])) =
          acc(synthetic_names u p n (length (split (CHR '','') (String (value p)))) [\<mapsto>]
                map (\<lambda>v. \<lparr>type = STRING, val = Str v\<rparr>) (split (CHR '','') (String (value p))))"
    by (simp add: step reducer_expand_binds b)
  have c5: "fst (execute_node u (Some \<lparr>execute = (\<lambda>q b opts. Inr r), close = k\<rparr>)
            (Inr (np\<lparr>params := ps @ [p]\<rparr>))) =
       Normal [returnItems (includeMetadata np) r]"
    by (simp add: execute_node_answer)
  show ?thesis
    apply (intro conjI)
    subgoal by (rule c1)
    subgoal by (rule c2)
    subgoal by (rule c3)
    subgoal by (rule c4)
    subgoal by (rule c5)
    done
qed

theorem other_datatype_bound_as_string_witness:
  "''date'' \<noteq> ''number'' \<and> ''String'' \<noteq> ''number'' \<and>
   reduce example_uuids ''SELECT :d FROM t WHERE a = :a''
     [\<lparr>name = ''a'', value = Str ''x'', datatype = ''string'', parseInStatement = False\<rparr>,
      \<lparr>name = ''d'', value = Str ''2024-01-31'', datatype = ''date'', parseInStatement = False\<rparr>] =
     ([''a'' \<mapsto> \<lparr>type = STRING, val = Str ''x''\<rparr>,
       ''d'' \<mapsto> \<lparr>type = STRING, val = Str ''2024-01-31''\<rparr>],
      ''SELECT :d FROM t WHERE a = :a'', 0) \<and>
   fst (reduce example_uuids ''SELECT :d FROM t WHERE a = :a''
     [\<lparr>name = ''a'', value = Str ''x'', datatype = ''string'', parseInStatement = False\<rparr>,
      \<lparr>name = ''d'', value = Str ''2024-01-31'', datatype = ''date'', parseInStatement = False\<rparr>]) ''d'' =
     Some \<lparr>type = STRING, val = Str ''2024-01-31''\<rparr> \<and>
   fst (reduce example_uuids ''SELECT 1 FROM t WHERE a = :a AND c IN :c''
     [\<lparr>name = ''a'', value = Str ''x'', datatype = ''string'', parseInStatement = False\<rparr>,
      \<lparr>name = ''c'', value = Str ''a,7'', datatype = ''String'', parseInStatement = True\<rparr>]) =
     [''a'' \<mapsto> \<lparr>type = STRING, val = Str ''x''\<rparr>,
      ''c1b4e28ba_2fa1_41d2_883f_0016d3cca427'' \<mapsto> \<lparr>type = STRING, val = Str ''a''\<rparr>,
      ''c6fa459ea_ee8a_4ca4_894e_db77e160355e'' \<mapsto> \<lparr>type = STRING, val = Str ''7''\<rparr>]"
proof -
  let ?pa = "\<lparr>name = ''a'', value = Str ''x'', datatype = ''string'', parseInStatement = False\<rparr>"
  let ?pd = "\<lparr>name = ''d'', value = Str ''2024-01-31'', datatype = ''date'', parseInStatement = False\<rparr>"
  let ?pc = "\<lparr>name = ''c'', value = Str ''a,7'', datatype = ''String'', parseInStatement = True\<rparr>"
  have r0: "reduce example_uuids sql [?pa] = ([''a'' \<mapsto> \<lparr>type = STRING, val = Str ''x''\<rparr>], sql, 0)"
    for sql
    by (simp add: reduce_def reducer_plain assign_def dataType_def bind_val_def)
  have hd: "datatype ?pd \<noteq> ''number''" by simp
  have hc: "datatype ?pc \<noteq> ''number''" by simp
  have nm: "synthetic_names example_uuids ?pc 0 (Suc (Suc 0)) =
      [''c1b4e28ba_2fa1_41d2_883f_0016d3cca427'', ''c6fa459ea_ee8a_4ca4_894e_db77e160355e'']"
    by (simp add: synthetic_names_def replaceAll_char example_uuids_def)
  have sp: "split (CHR '','') ''a,7'' = [''a'', ''7'']" by code_simp
  note D = other_datatype_bound_as_string
    [where p = ?pd and u = example_uuids and sql = "''SELECT :d FROM t WHERE a = :a''"
       and ps = "[?pa]", OF hd r0]
  note C = other_datatype_bound_as_string
    [where p = ?pc and u = example_uuids and sql = "''SELECT 1 FROM t WHERE a = :a AND c IN :c''"
       and ps = "[?pa]", OF hc r0]
  from D [THEN conjunct1]
  have a: "reduce example_uuids ''SELECT :d FROM t WHERE a = :a'' [?pa, ?pd] =
     ([''a'' \<mapsto> \<lparr>type = STRING, val = Str ''x''\<rparr>,
       ''d'' \<mapsto> \<lparr>type = STRING, val = Str ''2024-01-31''\<rparr>],
      ''SELECT :d FROM t WHERE a = :a'', 0)"
    by (simp add: assign_def)
  from D [THEN conjunct2, THEN conjunct1]
  have b: "fst (reduce example_uuids ''SELECT :d FROM t WHERE a = :a'' [?pa, ?pd]) ''d'' =
     Some \<lparr>type = STRING, val = Str ''2024-01-31''\<rparr>"
    by simp
  from C [THEN conjunct2, THEN conjunct2, THEN conjunct2, THEN conjunct1]
  have c: "fst (reduce example_uuids ''SELECT 1 FROM t WHERE a = :a AND c IN :c'' [?pa, ?pc]) =
     [''a'' \<mapsto> \<lparr>type = STRING, val = Str ''x''\<rparr>,
      ''c1b4e28ba_2fa1_41d2_883f_0016d3cca427'' \<mapsto> \<lparr>type = STRING, val = Str ''a''\<rparr>,
      ''c6fa459ea_ee8a_4ca4_894e_db77e160355e'' \<mapsto> \<lparr>type = STRING, val = Str ''7''\<rparr>]"
    by (simp add: sp nm is_uuid_example_uuids)
  from a b c show ?thesis by simp
qed

text \<open>
  C7 as the code has it. A parameter declared \<^verbatim>\<open>number\<close>, compiled after any parameters
  \<open>ps\<close>, is never checked. When it does not ask for a list, the one bind made for it is
  typed NUMBER and holds \<^verbatim>\<open>Number(value)\<close>, which is \<^verbatim>\<open>NaN\<close> for a text that is no numeric
  literal; it is the entry under the parameter's name, for every name but \<^verbatim>\<open>__proto__\<close>.
  When it asks for a list, every entry that compiling it adds or changes is typed
  NUMBER and holds \<^verbatim>\<open>Number\<close> of one of the pieces; with distinct UUIDs drawn, the entry
  under the name made for a piece holds \<^verbatim>\<open>Number\<close> of that piece, so \<^verbatim>\<open>NaN\<close> for each
  piece that is no numeric literal. Building the binds has no failure, and with a
  connection that answers the invocation returns the output items.
\<close>

theorem number_parameter_not_validated:
  assumes "datatype p = ''number''" and "reduce u sql ps = (acc, q, n)"
    and "vs = split (CHR '','') (String (value p))"
  shows "(\<not> parseInStatement p \<longrightarrow>
        reduce u sql (ps @ [p]) =
          (assign acc (name p) \<lparr>type = NUMBER, val = Num (Number (value p))\<rparr>, q, n)) \<and>
     (\<not> parseInStatement p \<and> value p = Str s \<and> StringNumericLiteral s = None \<longrightarrow>
        reduce u sql (ps @ [p]) =
          (assign acc (name p) \<lparr>type = NUMBER, val = Num NaN\<rparr>, q, n)) \<and>
     (\<not> parseInStatement p \<and> value p = Str s \<and> StringNumericLiteral s = None \<and>
      name p \<noteq> ''__proto__'' \<longrightarrow>
        fst (reduce u sql (ps @ [p])) (name p) = Some \<lparr>type = NUMBER, val = Num NaN\<rparr>) \<and>
     (parseInStatement p \<longrightarrow>
        (\<forall>key b. fst (reduce u sql (ps @ [p])) key = Some b \<longrightarrow>
           acc key = Some b \<or>
           (\<exists>v\<in>set vs. b = \<lparr>type = NUMBER, val = Num (StringToNumber v)\<rparr>))) \<and>
     (parseInStatement p \<and> (\<forall>i<length vs. is_uuid (u (n + i))) \<and>
      distinct (map (\<lambda>i. u (n + i)) [0..<length vs]) \<longrightarrow>
        (\<forall>i<length vs.
           fst (reduce u sql (ps @ [p])) (name p @ replaceAll (u (n + i)) ''-'' ''_'') =
             Some \<lparr>type = NUMBER, val = Num (StringToNumber (vs ! i))\<rparr> \<and>
           (StringNumericLiteral (vs ! i) = None \<longrightarrow>
              fst (reduce u sql (ps @ [p])) (name p @ replaceAll (u (n + i)) ''-'' ''_'') =
                Some \<lparr>type = NUMBER, val = Num NaN\<rparr>))) \<and>
     fst (execute_node u (Some \<lparr>execute = (\<lambda>q b opts. Inr r), close = k\<rparr>)
            (Inr (np\<lparr>params := ps @ [p]\<rparr>))) =
       Normal [returnItems (includeMetadata np) r]"
proof -
  have step: "reduce u sql (ps @ [p]) = reducer u (acc, q, n) p"
    by (simp add: reduce_snoc assms(2))
  have c1: "\<not> parseInStatement p \<longrightarrow>
        reduce u sql (ps @ [p]) =
          (assign acc (name p) \<lparr>type = NUMBER, val = Num (Number (value p))\<rparr>, q, n)"
    using assms(1) by (simp add: step reducer_plain dataType_def bind_val_def)
  have c2: "\<not> parseInStatement p \<and> value p = Str s \<and> StringNumericLiteral s = None \<longrightarrow>
        reduce u sql (ps @ [p]) =
          (assign acc (name p) \<lparr>type = NUMBER, val = Num NaN\<rparr>, q, n)"
    using c1 by (simp add: StringToNumber_def)
  have c3: "\<not> parseInStatement p \<and> value p = Str s \<and> StringNumericLiteral s = None \<and>
      name p \<noteq> ''__proto__'' \<longrightarrow>
        fst (reduce u sql (ps @ [p])) (name p) = Some \<lparr>type = NUMBER, val = Num NaN\<rparr>"
    using c2 by (simp add: assign_other)
  have c4: "parseInStatement p \<longrightarrow>
        (\<forall>key b. fst (reduce u sql (ps @ [p])) key = Some b \<longrightarrow>
           acc key = Some b \<or>
           (\<exists>v\<in>set vs. b = \<lparr>type = NUMBER, val = Num (StringToNumber v)\<rparr>))"
  proof (intro impI allI)
    fix key b
    assume l: "parseInStatement p" and e: "fst (reduce u sql (ps @ [p])) key = Some b"
    from e have "fst (reducer u (acc, q, n) p) key = Some b" by (simp only: step)
    with l have "acc key = Some b \<or>
       (\<exists>v\<in>set (split (CHR '','') (String (value p))).
          b = \<lparr>type = dataType p, val = bind_val p (Str v)\<rparr>)"
      by (rule reducer_expand_entries)
    then show "acc key = Some b \<or>
       (\<exists>v\<in>set vs. b = \<lparr>type = NUMBER, val = Num (StringToNumber v)\<rparr>)"
      using assms(1) by (simp add: dataType_def bind_val_def assms(3))
  qed
  have c5: "parseInStatement p \<and> (\<forall>i<length vs. is_uuid (u (n + i))) \<and>
      distinct (map (\<lambda>i. u (n + i)) [0..<length vs]) \<longrightarrow>
        (\<forall>i<length vs.
           fst (reduce u sql (ps @ [p])) (name p @ replaceAll (u (n + i)) ''-'' ''_'') =
             Some \<lparr>type = NUMBER, val = Num (StringToNumber (vs ! i))\<rparr> \<and>
           (StringNumericLiteral (vs ! i) = None \<longrightarrow>
              fst (reduce u sql (ps @ [p])) (name p @ replaceAll (u (n + i)) ''-'' ''_'') =
                Some \<lparr>type = NUMBER, val = Num NaN\<rparr>))"
  proof (intro impI allI)
    fix i
    assume h: "parseInStatement p \<and> (\<forall>i<length vs. is_uuid (u (n + i))) \<and>
      distinct (map (\<lambda>i. u (n + i)) [0..<length vs])"
      and i: "i < length vs"
    let ?names = "synthetic_names u p n (length vs)"
    let ?vals = "map (\<lambda>v. \<lparr>type = dataType p, val = bind_val p (Str v)\<rparr>) vs"
    from h have l: "parseInStatement p" and uu: "\<forall>i<length vs. is_uuid (u (n + i))"
      and dd: "distinct (map (\<lambda>i. u (n + i)) [0..<length vs])"
      by simp_all
    from uu dd have d: "distinct ?names" by (rule distinct_synthetic_names)
    from l uu have "fst (reducer u (acc, q, n) p) = acc(?names [\<mapsto>] ?vals)"
      unfolding assms(3) by (rule reducer_expand_binds)
    then have eq: "fst (reduce u sql (ps @ [p])) = acc(?names [\<mapsto>] ?vals)"
      by (simp only: step)
    have len: "length ?names = length ?vals" by simp
    from i have i': "i < length ?names" by simp
    from d len i' have "(acc(?names [\<mapsto>] ?vals)) (?names ! i) = Some (?vals ! i)"
      by (rule map_upds_nth)
    moreover from i have "?names ! i = name p @ replaceAll (u (n + i)) ''-'' ''_''"
      by (rule synthetic_names_nth)
    moreover from i assms(1)
    have "?vals ! i = \<lparr>type = NUMBER, val = Num (StringToNumber (vs ! i))\<rparr>"
      by (simp add: dataType_def bind_val_def)
    ultimately have e: "fst (reduce u sql (ps @ [p])) (name p @ replaceAll (u (n + i)) ''-'' ''_'') =
        Some \<lparr>type = NUMBER, val = Num (StringToNumber (vs ! i))\<rparr>"
      by (simp only: eq)
    then show "fst (reduce u sql (ps @ [p])) (name p @ replaceAll (u (n + i)) ''-'' ''_'') =
             Some \<lparr>type = NUMBER, val = Num (StringToNumber (vs ! i))\<rparr> \<and>
           (StringNumericLiteral (vs ! i) = None \<longrightarrow>
              fst (reduce u sql (ps @ [p])) (name p @ replaceAll (u (n + i)) ''-'' ''_'') =
                Some \<lparr>type = NUMBER, val = Num NaN\<rparr>)"
      by (simp add: StringToNumber_def)
  qed
  have c6: "fst (execute_node u (Some \<lparr>execute = (\<lambda>q b opts. Inr r), close = k\<rparr>)
            (Inr (np\<lparr>params := ps @ [p]\<rparr>))) =
       Normal [returnItems (includeMetadata np) r]"
    by (simp add: execute_node_answer)
  show ?thesis
    apply (intro conjI)
    subgoal by (rule c1)
    subgoal by (rule c2)
    subgoal by (rule c3)
    subgoal by (rule c4)
    subgoal by (rule c5)
    subgoal by (rule c6)
    done
qed

theorem number_parameter_not_validated_witness:
  "''number'' = ''number'' \<and> StringNumericLiteral ''12abc'' = None \<and>
   StringNumericLiteral ''x'' = None \<and>
   reduce example_uuids ''SELECT * FROM t WHERE a = :a AND id = :id''
     [\<lparr>name = ''a'', value = Str ''x'', datatype = ''string'', parseInStatement = False\<rparr>,
      \<lparr>name = ''id'', value = Str ''12abc'', datatype = ''number'', parseInStatement = False\<rparr>] =
     ([''a'' \<mapsto> \<lparr>type = STRING, val = Str ''x''\<rparr>, ''id'' \<mapsto> \<lparr>type = NUMBER, val = Num NaN\<rparr>],
      ''SELECT * FROM t WHERE a = :a AND id = :id'', 0) \<and>
   fst (reduce example_uuids ''SELECT * FROM t WHERE a = :a AND id IN :ids''
     [\<lparr>name = ''a'', value = Str ''x'', datatype = ''string'', parseInStatement = False\<rparr>,
      \<lparr>name = ''ids'', value = Str ''12abc,x'', datatype = ''number'', parseInStatement = True\<rparr>])
     ''ids1b4e28ba_2fa1_41d2_883f_0016d3cca427'' = Some \<lparr>type = NUMBER, val = Num NaN\<rparr> \<and>
   fst (reduce example_uuids ''SELECT * FROM t WHERE a = :a AND id IN :ids''
     [\<lparr>name = ''a'', value = Str ''x'', datatype = ''string'', parseInStatement = False\<rparr>,
      \<lparr>name = ''ids'', value = Str ''12abc,x'', datatype = ''number'', parseInStatement = True\<rparr>])
     ''ids6fa459ea_ee8a_4ca4_894e_db77e160355e'' = Some \<lparr>type = NUMBER, val = Num NaN\<rparr>"
proof -
  let ?pa = "\<lparr>name = ''a'', value = Str ''x'', datatype = ''string'', parseInStatement = False\<rparr>"
  let ?pi = "\<lparr>name = ''id'', value = Str ''12abc'', datatype = ''number'', parseInStatement = False\<rparr>"
  let ?pl = "\<lparr>name = ''ids'', value = Str ''12abc,x'', datatype = ''number'', parseInStatement = True\<rparr>"
  have r0: "reduce example_uuids sql [?pa] = ([''a'' \<mapsto> \<lparr>type = STRING, val = Str ''x''\<rparr>], sql, 0)"
    for sql
    by (simp add: reduce_def reducer_plain assign_def dataType_def bind_val_def)
  have s1: "StringNumericLiteral ''12abc'' = None" by code_simp
  have s2: "StringNumericLiteral ''x'' = None" by code_simp
  have hi: "datatype ?pi = ''number''" by simp
  have hl: "datatype ?pl = ''number''" by simp
  have spi: "[''12abc''] = split (CHR '','') (String (value ?pi))" by code_simp
  have spl: "[''12abc'', ''x''] = split (CHR '','') (String (value ?pl))" by code_simp
  have sf0: "replaceAll (example_uuids 0) ''-'' ''_'' = ''1b4e28ba_2fa1_41d2_883f_0016d3cca427''"
    by (simp add: replaceAll_char example_uuids_def)
  have sf1: "replaceAll (example_uuids 1) ''-'' ''_'' = ''6fa459ea_ee8a_4ca4_894e_db77e160355e''"
    by (simp add: replaceAll_char example_uuids_def)
  have dd: "distinct (map (\<lambda>i. example_uuids (0 + i)) [0..<length [''12abc'', ''x'']])"
    by (simp add: example_uuids_def upt_rec)
  note I = number_parameter_not_validated
    [where p = ?pi and u = example_uuids and sql = "''SELECT * FROM t WHERE a = :a AND id = :id''"
       and ps = "[?pa]" and s = "''12abc''", OF hi r0 spi]
  note L = number_parameter_not_validated
    [where p = ?pl and u = example_uuids and sql = "''SELECT * FROM t WHERE a = :a AND id IN :ids''"
       and ps = "[?pa]", OF hl r0 spl]
  from I [THEN conjunct2, THEN conjunct1] s1
  have a: "reduce example_uuids ''SELECT * FROM t WHERE a = :a AND id = :id'' [?pa, ?pi] =
     ([''a'' \<mapsto> \<lparr>type = STRING, val = Str ''x''\<rparr>, ''id'' \<mapsto> \<lparr>type = NUMBER, val = Num NaN\<rparr>],
      ''SELECT * FROM t WHERE a = :a AND id = :id'', 0)"
    by (simp add: assign_def)
  from L [THEN conjunct2, THEN conjunct2, THEN conjunct2, THEN conjunct2, THEN conjunct1] dd
  have b: "\<forall>i<2. StringNumericLiteral ([''12abc'', ''x''] ! i) = None \<longrightarrow>
      fst (reduce example_uuids ''SELECT * FROM t WHERE a = :a AND id IN :ids'' [?pa, ?pl])
        (''ids'' @ replaceAll (example_uuids i) ''-'' ''_'') = Some \<lparr>type = NUMBER, val = Num NaN\<rparr>"
    by (simp add: is_uuid_example_uuids StringToNumber_def)
  from b [rule_format, of 0] s1 sf0
  have b0: "fst (reduce example_uuids ''SELECT * FROM t WHERE a = :a AND id IN :ids'' [?pa, ?pl])
     ''ids1b4e28ba_2fa1_41d2_883f_0016d3cca427'' = Some \<lparr>type = NUMBER, val = Num NaN\<rparr>"
    by simp
  from b [rule_format, of 1] s2 sf1
  have b1: "fst (reduce example_uuids ''SELECT * FROM t WHERE a = :a AND id IN :ids'' [?pa, ?pl])
     ''ids6fa459ea_ee8a_4ca4_894e_db77e160355e'' = Some \<lparr>type = NUMBER, val = Num NaN\<rparr>"
    by simp
  from a b0 b1 s1 s2 show ?thesis by simp
qed

text \<open>
  C7 does not hold of the code: the value \<^verbatim>\<open>abc\<close> of a parameter declared \<^verbatim>\<open>number\<close> is no numeric
  literal, and the node binds \<^verbatim>\<open>NaN\<close> under the parameter's name and goes on to execute
  the statement; with a connection that answers, the invocation returns normally.
\<close>

theorem number_parameter_validated_counterexample:
  "StringNumericLiteral ''abc'' = None \<and>
   fst (reduce example_uuids ''SELECT * FROM t WHERE id = :id''
     [\<lparr>name = ''id'', value = Str ''abc'', datatype = ''number'', parseInStatement = False\<rparr>]) ''id'' =
     Some \<lparr>type = NUMBER, val = Num NaN\<rparr> \<and>
   fst (execute_node example_uuids
     (Some (\<lparr>execute = (\<lambda>q b opts. Inr \<lparr>rows = Some [], metaData = ()\<rparr>), close = None\<rparr>
        :: (string, nat, unit) connection))
     (Inr \<lparr>query = ''SELECT * FROM t WHERE id = :id'',
           params = [\<lparr>name = ''id'', value = Str ''abc'', datatype = ''number'',
                       parseInStatement = False\<rparr>],
           includeMetadata = False, rowLimit = Fin False 0 0\<rparr>)) = Normal [[]]"
proof -
  have s: "StringNumericLiteral ''abc'' = None" by code_simp
  then have n: "StringToNumber ''abc'' = NaN" by (simp add: StringToNumber_def)
  show ?thesis
    using s n
    by (simp add: reduce_def reducer_plain assign_def dataType_def bind_val_def execute_node_answer
          returnItems_def)
qed

section \<open>Randomness\<close>

text \<open>
  C9. When no parameter asks for a list, the bind parameters and the query do not
  depend on the UUIDs: two invocations on the same query and parameters give the same
  result. The name made from a UUID determines the UUID. So when a parameter that asks
  for a list is compiled after the same parameters \<open>ps\<close> by two invocations that draw
  different UUIDs, each invocation binds the pieces under its own names and leaves the
  binds it had: the names of the one are none of the names of the other, there is at
  least one, and unless the other invocation had bound one of these names before, the
  bind parameters of the two invocations differ.
\<close>

theorem plain_path_repeatable_list_names_differ:
  "((\<forall>p\<in>set ps. \<not> parseInStatement p) \<longrightarrow> reduce u1 sql ps = reduce u2 sql ps) \<and>
   (is_uuid a \<and> is_uuid b \<and> a \<noteq> b \<longrightarrow>
      name p @ replaceAll a ''-'' ''_'' \<noteq> name p @ replaceAll b ''-'' ''_'') \<and>
   (parseInStatement p \<and> k = length (split (CHR '','') (String (value p))) \<and>
    reduce u1 sql ps = (acc1, q1, n1) \<and> reduce u2 sql ps = (acc2, q2, n2) \<and>
    (\<forall>i<k. is_uuid (u1 (n1 + i))) \<and> (\<forall>i<k. is_uuid (u2 (n2 + i))) \<and>
    (\<forall>i<k. \<forall>j<k. u1 (n1 + i) \<noteq> u2 (n2 + j)) \<longrightarrow>
      dom (fst (reduce u1 sql (ps @ [p]))) = set (synthetic_names u1 p n1 k) \<union> dom acc1 \<and>
      dom (fst (reduce u2 sql (ps @ [p]))) = set (synthetic_names u2 p n2 k) \<union> dom acc2 \<and>
      set (synthetic_names u1 p n1 k) \<noteq> {} \<and>
      set (synthetic_names u1 p n1 k) \<inter> set (synthetic_names u2 p n2 k) = {} \<and>
      synthetic_names u1 p n1 k \<noteq> synthetic_names u2 p n2 k \<and>
      (set (synthetic_names u1 p n1 k) \<inter> dom acc2 = {} \<longrightarrow>
         fst (reduce u1 sql (ps @ [p])) \<noteq> fst (reduce u2 sql (ps @ [p]))))"
proof (intro conjI impI)
  assume "\<forall>p\<in>set ps. \<not> parseInStatement p"
  then show "reduce u1 sql ps = reduce u2 sql ps"
    unfolding reduce_def by (rule foldl_reducer_plain_any)
next
  assume "is_uuid a \<and> is_uuid b \<and> a \<noteq> b"
  then show "name p @ replaceAll a ''-'' ''_'' \<noteq> name p @ replaceAll b ''-'' ''_''"
    using uniqueSuffix_inj [of a b] by auto
next
  assume h: "parseInStatement p \<and> k = length (split (CHR '','') (String (value p))) \<and>
    reduce u1 sql ps = (acc1, q1, n1) \<and> reduce u2 sql ps = (acc2, q2, n2) \<and>
    (\<forall>i<k. is_uuid (u1 (n1 + i))) \<and> (\<forall>i<k. is_uuid (u2 (n2 + i))) \<and>
    (\<forall>i<k. \<forall>j<k. u1 (n1 + i) \<noteq> u2 (n2 + j))"
  from h have l: "parseInStatement p" and k: "k = length (split (CHR '','') (String (value p)))"
    and r1: "reduce u1 sql ps = (acc1, q1, n1)" and r2: "reduce u2 sql ps = (acc2, q2, n2)"
    and uu1: "\<forall>i<k. is_uuid (u1 (n1 + i))" and uu2: "\<forall>i<k. is_uuid (u2 (n2 + i))"
    and ne12: "\<forall>i<k. \<forall>j<k. u1 (n1 + i) \<noteq> u2 (n2 + j)"
    by simp_all
  have s1: "reduce u1 sql (ps @ [p]) = reducer u1 (acc1, q1, n1) p"
    by (simp add: reduce_snoc r1)
  have s2: "reduce u2 sql (ps @ [p]) = reducer u2 (acc2, q2, n2) p"
    by (simp add: reduce_snoc r2)
  from l uu1 show d1: "dom (fst (reduce u1 sql (ps @ [p]))) = set (synthetic_names u1 p n1 k) \<union> dom acc1"
    unfolding s1 k by (rule dom_reducer_expand)
  from l uu2 show d2: "dom (fst (reduce u2 sql (ps @ [p]))) = set (synthetic_names u2 p n2 k) \<union> dom acc2"
    unfolding s2 k by (rule dom_reducer_expand)
  show disj: "set (synthetic_names u1 p n1 k) \<inter> set (synthetic_names u2 p n2 k) = {}"
  proof (rule ccontr)
    assume "set (synthetic_names u1 p n1 k) \<inter> set (synthetic_names u2 p n2 k) \<noteq> {}"
    then obtain i j where ij: "i < k" "j < k"
      and eq: "name p @ replaceAll (u1 (n1 + i)) ''-'' ''_'' = name p @ replaceAll (u2 (n2 + j)) ''-'' ''_''"
      by (auto simp: synthetic_names_def)
    from eq have eq': "replaceAll (u1 (n1 + i)) ''-'' ''_'' = replaceAll (u2 (n2 + j)) ''-'' ''_''"
      by (simp only: same_append_eq)
    from uu1 uu2 ij have ui: "is_uuid (u1 (n1 + i))" and uj: "is_uuid (u2 (n2 + j))" by simp_all
    from ui uj eq' have "u1 (n1 + i) = u2 (n2 + j)" by (rule uniqueSuffix_inj)
    with ne12 ij show False by simp
  qed
  from k have "0 < k" using split_not_Nil [of "CHR '',''" "String (value p)"] by simp
  then have "synthetic_names u1 p n1 k \<noteq> []"
    using length_synthetic_names [of u1 p n1 k] by (simp only: length_greater_0_conv [symmetric])
  then show ne: "set (synthetic_names u1 p n1 k) \<noteq> {}" by (simp only: set_empty not_False_eq_True)
  show "synthetic_names u1 p n1 k \<noteq> synthetic_names u2 p n2 k"
  proof
    assume "synthetic_names u1 p n1 k = synthetic_names u2 p n2 k"
    with disj have "set (synthetic_names u1 p n1 k) = {}" by simp
    with ne show False by (rule notE)
  qed
  assume fresh: "set (synthetic_names u1 p n1 k) \<inter> dom acc2 = {}"
  show "fst (reduce u1 sql (ps @ [p])) \<noteq> fst (reduce u2 sql (ps @ [p]))"
  proof
    assume "fst (reduce u1 sql (ps @ [p])) = fst (reduce u2 sql (ps @ [p]))"
    then have "dom (fst (reduce u1 sql (ps @ [p]))) = dom (fst (reduce u2 sql (ps @ [p])))"
      by (rule arg_cong)
    then have e: "set (synthetic_names u1 p n1 k) \<union> dom acc1 = set (synthetic_names u2 p n2 k) \<union> dom acc2"
      by (simp only: d1 d2)
    from ne obtain x where x: "x \<in> set (synthetic_names u1 p n1 k)"
      by (cases "synthetic_names u1 p n1 k") auto
    then have "x \<in> set (synthetic_names u2 p n2 k) \<union> dom acc2"
      using e by (simp only: e [symmetric] Un_iff) simp
    with x disj fresh show False by (simp only: disjoint_iff Un_iff) simp
  qed
qed

theorem plain_path_repeatable_list_names_differ_witness:
  "list_all (\<lambda>p. \<not> parseInStatement p)
     [\<lparr>name = ''a'', value = Str ''x'', datatype = ''string'', parseInStatement = False\<rparr>] \<and>
   reduce example_uuids ''SELECT id FROM t WHERE a = :a AND id IN :ids''
     [\<lparr>name = ''a'', value = Str ''x'', datatype = ''string'', parseInStatement = False\<rparr>] =
   reduce other_uuids ''SELECT id FROM t WHERE a = :a AND id IN :ids''
     [\<lparr>name = ''a'', value = Str ''x'', datatype = ''string'', parseInStatement = False\<rparr>] \<and>
   is_uuid (example_uuids 0) \<and> is_uuid (other_uuids 0) \<and> example_uuids 0 \<noteq> other_uuids 0 \<and>
   ''ids'' @ replaceAll (example_uuids 0) ''-'' ''_'' \<noteq> ''ids'' @ replaceAll (other_uuids 0) ''-'' ''_'' \<and>
   dom (fst (reduce example_uuids ''SELECT id FROM t WHERE a = :a AND id IN :ids''
     [\<lparr>name = ''a'', value = Str ''x'', datatype = ''string'', parseInStatement = False\<rparr>,
      \<lparr>name = ''ids'', value = Str ''7,8'', datatype = ''number'', parseInStatement = True\<rparr>])) =
     {''ids1b4e28ba_2fa1_41d2_883f_0016d3cca427'', ''ids6fa459ea_ee8a_4ca4_894e_db77e160355e'', ''a''} \<and>
   dom (fst (reduce other_uuids ''SELECT id FROM t WHERE a = :a AND id IN :ids''
     [\<lparr>name = ''a'', value = Str ''x'', datatype = ''string'', parseInStatement = False\<rparr>,
      \<lparr>name = ''ids'', value = Str ''7,8'', datatype = ''number'', parseInStatement = True\<rparr>])) =
     {''idsc73bcdcc_2669_4bf6_81d3_e4ae73fb11fd'', ''ids0e37df36_f698_41c1_b29b_6e1a1d1e2a44'', ''a''} \<and>
   fst (reduce example_uuids ''SELECT id FROM t WHERE a = :a AND id IN :ids''
     [\<lparr>name = ''a'', value = Str ''x'', datatype = ''string'', parseInStatement = False\<rparr>,
      \<lparr>name = ''ids'', value = Str ''7,8'', datatype = ''number'', parseInStatement = True\<rparr>]) \<noteq>
   fst (reduce other_uuids ''SELECT id FROM t WHERE a = :a AND id IN :ids''
     [\<lparr>name = ''a'', value = Str ''x'', datatype = ''string'', parseInStatement = False\<rparr>,
      \<lparr>name = ''ids'', value = Str ''7,8'', datatype = ''number'', parseInStatement = True\<rparr>])"
proof -
  let ?pa = "\<lparr>name = ''a'', value = Str ''x'', datatype = ''string'', parseInStatement = False\<rparr>"
  let ?p = "\<lparr>name = ''ids'', value = Str ''7,8'', datatype = ''number'', parseInStatement = True\<rparr>"
  let ?sql = "''SELECT id FROM t WHERE a = :a AND id IN :ids''"
  let ?acc = "[''a'' \<mapsto> \<lparr>type = STRING, val = Str ''x''\<rparr>]"
  have r0: "reduce u ?sql [?pa] = (?acc, ?sql, 0)" for u
    by (simp add: reduce_def reducer_plain assign_def dataType_def bind_val_def)
  have h1: "\<forall>p\<in>set [?pa]. \<not> parseInStatement p" by simp
  have d: "\<forall>i<2. \<forall>j<2. example_uuids (0 + i) \<noteq> other_uuids (0 + j)"
    by (auto simp add: example_uuids_def other_uuids_def)
  have h2: "is_uuid (example_uuids 0) \<and> is_uuid (other_uuids 0) \<and> example_uuids 0 \<noteq> other_uuids 0"
    by (simp add: is_uuid_example_uuids is_uuid_other_uuids) (simp add: example_uuids_def other_uuids_def)
  have sp: "2 = length (split (CHR '','') (String (value ?p)))" by code_simp
  have h3: "parseInStatement ?p \<and> 2 = length (split (CHR '','') (String (value ?p))) \<and>
    reduce example_uuids ?sql [?pa] = (?acc, ?sql, 0) \<and> reduce other_uuids ?sql [?pa] = (?acc, ?sql, 0) \<and>
    (\<forall>i<2. is_uuid (example_uuids (0 + i))) \<and> (\<forall>i<2. is_uuid (other_uuids (0 + i))) \<and>
    (\<forall>i<2. \<forall>j<2. example_uuids (0 + i) \<noteq> other_uuids (0 + j))"
    using d sp r0 by (simp only: is_uuid_example_uuids is_uuid_other_uuids) simp
  have nm1: "synthetic_names example_uuids ?p 0 2 =
      [''ids1b4e28ba_2fa1_41d2_883f_0016d3cca427'', ''ids6fa459ea_ee8a_4ca4_894e_db77e160355e'']"
    by (simp add: synthetic_names_def replaceAll_char example_uuids_def upt_rec)
  have nm2: "synthetic_names other_uuids ?p 0 2 =
      [''idsc73bcdcc_2669_4bf6_81d3_e4ae73fb11fd'', ''ids0e37df36_f698_41c1_b29b_6e1a1d1e2a44'']"
    by (simp add: synthetic_names_def replaceAll_char other_uuids_def upt_rec)
  note T = plain_path_repeatable_list_names_differ
    [where ps = "[?pa]" and ?u1.0 = example_uuids and ?u2.0 = other_uuids
       and sql = ?sql and a = "example_uuids 0" and b = "other_uuids 0" and p = ?p and k = 2
       and ?n1.0 = 0 and ?n2.0 = 0 and ?acc1.0 = ?acc and ?acc2.0 = ?acc
       and ?q1.0 = ?sql and ?q2.0 = ?sql]
  from T [THEN conjunct1] h1 have a: "reduce example_uuids ?sql [?pa] = reduce other_uuids ?sql [?pa]"
    by (rule mp)
  from T [THEN conjunct2, THEN conjunct1] h2
  have b: "name ?p @ replaceAll (example_uuids 0) ''-'' ''_'' \<noteq>
      name ?p @ replaceAll (other_uuids 0) ''-'' ''_''"
    by (rule mp)
  from T [THEN conjunct2, THEN conjunct2] h3
  have c: "dom (fst (reduce example_uuids ?sql ([?pa] @ [?p]))) =
        set (synthetic_names example_uuids ?p 0 2) \<union> dom ?acc \<and>
      dom (fst (reduce other_uuids ?sql ([?pa] @ [?p]))) =
        set (synthetic_names other_uuids ?p 0 2) \<union> dom ?acc \<and>
      set (synthetic_names example_uuids ?p 0 2) \<noteq> {} \<and>
      set (synthetic_names example_uuids ?p 0 2) \<inter> set (synthetic_names other_uuids ?p 0 2) = {} \<and>
      synthetic_names example_uuids ?p 0 2 \<noteq> synthetic_names other_uuids ?p 0 2 \<and>
      (set (synthetic_names example_uuids ?p 0 2) \<inter> dom ?acc = {} \<longrightarrow>
         fst (reduce example_uuids ?sql ([?pa] @ [?p])) \<noteq> fst (reduce other_uuids ?sql ([?pa] @ [?p])))"
    by (rule mp)
  from c have c1: "dom (fst (reduce example_uuids ?sql [?pa, ?p])) =
     {''ids1b4e28ba_2fa1_41d2_883f_0016d3cca427'', ''ids6fa459ea_ee8a_4ca4_894e_db77e160355e'', ''a''}"
    by (simp only: nm1) auto
  from c have c2: "dom (fst (reduce other_uuids ?sql [?pa, ?p])) =
     {''idsc73bcdcc_2669_4bf6_81d3_e4ae73fb11fd'', ''ids0e37df36_f698_41c1_b29b_6e1a1d1e2a44'', ''a''}"
    by (simp only: nm2) auto
  from c have c3: "fst (reduce example_uuids ?sql [?pa, ?p]) \<noteq> fst (reduce other_uuids ?sql [?pa, ?p])"
    by (simp only: nm1) auto
  from a b c1 c2 c3 h2 show ?thesis by simp
qed

section \<open>The row limit, the output items and the connection\<close>



text \<open>
  C4. With \<open>includeMetadata\<close> the output is one item, whose payload is the whole result
  of the driver, whatever its rows are. Without it the output is one item for each row,
  in order, whose payload is that row: no item for no rows or for absent rows. A
  successful invocation returns exactly these items.
\<close>

theorem returnItems_envelope_or_rows:
  "returnItems True r = [\<lparr>json = Envelope r\<rparr>] \<and>
   returnItems False (r\<lparr>rows := Some rs\<rparr>) = map (\<lambda>row. \<lparr>json = Row row\<rparr>) rs \<and>
   length (returnItems False (r\<lparr>rows := Some rs\<rparr>)) = length rs \<and>
   returnItems False (r\<lparr>rows := Some []\<rparr>) = [] \<and>
   returnItems False (r\<lparr>rows := None\<rparr>) = [] \<and>
   fst (execute_node u (Some \<lparr>execute = (\<lambda>q b opts. Inr r), close = k\<rparr>) (Inr np)) =
     Normal [returnItems (includeMetadata np) r]"
  by (simp add: returnItems_def execute_node_Some try_block_def Let_def split: prod.splits)

text \<open>
  C5. When the node holds a connection, every invocation calls \<open>close\<close> exactly once,
  after everything else it does to the connection, whether a node parameter could not
  be read, the statement failed or it succeeded, and whether closing fails or not. What
  the invocation returns or throws is the outcome of the \<^verbatim>\<open>try\<close> block (a thrown error
  wrapped in a \<^verbatim>\<open>NodeOperationError\<close>) and does not depend on how closing ends; a failure
  of \<open>close\<close> only goes to the console.
\<close>

theorem connection_closed_exactly_once:
  "count_list (snd (execute_node u (Some c) gp)) Close = 1 \<and>
   snd (execute_node u (Some c) gp) =
     snd (try_block u (Some c) gp []) @ [Close] @
       (case close c of None \<Rightarrow> [] | Some e \<Rightarrow> [ConsoleError e]) \<and>
   fst (execute_node u (Some c) gp) =
     (case fst (try_block u (Some c) gp []) of
        Normal items \<Rightarrow> Normal [items]
      | Throw e \<Rightarrow> Throw (NodeOperationError e)) \<and>
   fst (execute_node u (Some (c\<lparr>close := k\<rparr>)) gp) = fst (execute_node u (Some c) gp)"
  by (simp add: execute_node_Some try_block_close try_block_trace split: option.splits)

end
